theory Spec2Isabelle
  imports Main "HOL-Library.Word"
begin

unbundle bit_operations_syntax

section \<open>The IR data model\<close>

text \<open>
  The embedding follows \<^verbatim>\<open>src/compiler/common/ir/ir.c\<close> and
  \<^verbatim>\<open>src/compiler/common/ir/opt.c\<close>. Objects of the C heap (variables, code blocks,
  instructions) are addressed by natural numbers; one \<^verbatim>\<open>ir_func_t\<close> together with
  everything it owns is one value of the record \<open>ir_func\<close>. A pointer that is followed while
  no object of the expected kind lives at its address is the error \<open>BadPointer\<close>; \<^verbatim>\<open>abort()\<close> after a
  diagnostic is the error \<open>Abort\<close>; a loop that has used up its fuel is \<open>OutOfFuel\<close>.
\<close>

datatype ir_prim =
    IR_PRIM_S8 | IR_PRIM_U8 | IR_PRIM_S16 | IR_PRIM_U16 | IR_PRIM_S32 | IR_PRIM_U32
  | IR_PRIM_S64 | IR_PRIM_U64 | IR_PRIM_S128 | IR_PRIM_U128 | IR_PRIM_BOOL
  | IR_PRIM_F32 | IR_PRIM_F64

datatype ir_op2_type =
    IR_OP2_SGT | IR_OP2_SLE | IR_OP2_SLT | IR_OP2_SGE | IR_OP2_SEQ | IR_OP2_SNE
  | IR_OP2_SCS | IR_OP2_SCC | IR_OP2_ADD | IR_OP2_SUB | IR_OP2_MUL | IR_OP2_DIV
  | IR_OP2_MOD | IR_OP2_SHL | IR_OP2_SHR | IR_OP2_BAND | IR_OP2_BOR | IR_OP2_BXOR
  | IR_OP2_LAND | IR_OP2_LOR

datatype ir_op1_type =
    IR_OP1_MOV | IR_OP1_SEQZ | IR_OP1_SNEZ | IR_OP1_NEG | IR_OP1_BNEG | IR_OP1_LNOT

type_synonym var_ptr = nat
type_synonym code_ptr = nat
type_synonym insn_ptr = nat

text \<open>\<^verbatim>\<open>ir_const_t\<close>: the primitive type and the low and high 64 bits.\<close>

datatype ir_const = Ir_const (prim_type: ir_prim) (constl: "64 word") (consth: "64 word")

text \<open>\<^verbatim>\<open>ir_operand_t\<close>: the tag \<^verbatim>\<open>is_const\<close> and the union of a constant and a variable.\<close>

datatype ir_operand = is_const: Op_const (iconst: ir_const) | Op_var (var: var_ptr)

text \<open>\<^verbatim>\<open>ir_combinator_t\<close>: the previous code block and the operand bound on that path.\<close>

datatype ir_combinator = Ir_combinator (prev: code_ptr) (bind: ir_operand)

text \<open>
  The union of \<^verbatim>\<open>ir_expr_t\<close>, by \<^verbatim>\<open>type\<close>; \<^verbatim>\<open>from_len\<close> is the length of the list.
\<close>

datatype ir_expr =
    E_combinator "ir_combinator list"
  | E_unary ir_op1_type ir_operand
  | E_binary ir_op2_type ir_operand ir_operand
  | E_undefined

text \<open>
  The union of \<^verbatim>\<open>ir_flow_t\<close>, by \<^verbatim>\<open>type\<close>. A return without value
  (\<^verbatim>\<open>has_value\<close> false) is \<open>F_return None\<close>.
\<close>

datatype ir_flow =
    F_jump code_ptr
  | F_branch ir_operand code_ptr
  | F_call_direct "ir_operand list" string
  | F_call_ptr "ir_operand list" ir_operand
  | F_return "ir_operand option"

text \<open>\<^verbatim>\<open>ir_insn_t\<close>: the parent code block and, by \<^verbatim>\<open>is_expr\<close>, an expression
  with its destination or a control flow instruction.\<close>

datatype ir_insn =
    is_expr: Expr (parent: code_ptr) (dest: var_ptr) (expr: ir_expr)
  | Flow (parent: code_ptr) (flow: ir_flow)

record ir_var =
  var_name :: string
  var_prim_type :: ir_prim
  used_at :: "insn_ptr list"
  assigned_at :: "insn_ptr list"

record ir_code =
  code_name :: string
  insns :: "insn_ptr list"
  pred :: "code_ptr list"
  succ :: "code_ptr list"
  visited :: bool
  dfs_index :: nat

text \<open>
  \<^verbatim>\<open>ir_func_t\<close> and the heap of the objects it owns. \<open>heap_top\<close> is the next address
  an allocation returns; addresses are never handed out twice.
\<close>

record ir_func =
  func_name :: string
  args :: "var_ptr list"
  entry :: code_ptr
  code_list :: "code_ptr list"
  vars_list :: "var_ptr list"
  enforce_ssa :: bool
  var_heap :: "var_ptr \<Rightarrow> ir_var option"
  code_heap :: "code_ptr \<Rightarrow> ir_code option"
  insn_heap :: "insn_ptr \<Rightarrow> ir_insn option"
  heap_top :: nat

datatype error = Abort | BadPointer | OutOfFuel

type_synonym 'a result = "error + 'a"

fun bindE :: "'a result \<Rightarrow> ('a \<Rightarrow> 'b result) \<Rightarrow> 'b result" where
  "bindE (Inl e) f = Inl e"
| "bindE (Inr x) f = f x"

text \<open>A loop over a list whose body may fail: the first error ends it.\<close>

fun foldE :: "('a \<Rightarrow> 's \<Rightarrow> 's result) \<Rightarrow> 'a list \<Rightarrow> 's \<Rightarrow> 's result" where
  "foldE f [] s = Inr s"
| "foldE f (x # xs) s = bindE (f x s) (foldE f xs)"

definition deref :: "(nat \<Rightarrow> 'a option) \<Rightarrow> nat \<Rightarrow> 'a result" where
  "deref h p = (case h p of None \<Rightarrow> Inl BadPointer | Some x \<Rightarrow> Inr x)"

definition upd_var :: "var_ptr \<Rightarrow> (ir_var \<Rightarrow> ir_var) \<Rightarrow> ir_func \<Rightarrow> ir_func result" where
  "upd_var v g s =
     (case var_heap s v of
        None \<Rightarrow> Inl BadPointer
      | Some x \<Rightarrow> Inr (s\<lparr>var_heap := (var_heap s)(v := Some (g x))\<rparr>))"

definition upd_code :: "code_ptr \<Rightarrow> (ir_code \<Rightarrow> ir_code) \<Rightarrow> ir_func \<Rightarrow> ir_func result" where
  "upd_code c g s =
     (case code_heap s c of
        None \<Rightarrow> Inl BadPointer
      | Some x \<Rightarrow> Inr (s\<lparr>code_heap := (code_heap s)(c := Some (g x))\<rparr>))"

definition upd_insn :: "insn_ptr \<Rightarrow> (ir_insn \<Rightarrow> ir_insn) \<Rightarrow> ir_func \<Rightarrow> ir_func result" where
  "upd_insn i g s =
     (case insn_heap s i of
        None \<Rightarrow> Inl BadPointer
      | Some x \<Rightarrow> Inr (s\<lparr>insn_heap := (insn_heap s)(i := Some (g x))\<rparr>))"

subsection \<open>Containers\<close>

text \<open>
  Modelled from the spec: the pointer set \<^verbatim>\<open>set_t\<close> and the intrusive list
  \<^verbatim>\<open>dlist_t\<close> (\<^verbatim>\<open>set.h\<close> and \<^verbatim>\<open>list.h\<close> are not under src). Section 6 of the
  specification gives their contract: a pointer-identity set with add, remove, contains,
  addAll, iteration and size, and a list with append, prepend, remove-by-node and length.
  A set is a list without repetition, iterated in insertion order.
\<close>

definition set_add :: "nat list \<Rightarrow> nat \<Rightarrow> nat list" where
  "set_add xs x = (if x \<in> set xs then xs else xs @ [x])"

definition set_remove :: "nat list \<Rightarrow> nat \<Rightarrow> nat list" where
  "set_remove xs x = removeAll x xs"

definition set_addall :: "nat list \<Rightarrow> nat list \<Rightarrow> nat list" where
  "set_addall xs ys = fold (\<lambda>y acc. set_add acc y) ys xs"

definition set_contains :: "nat list \<Rightarrow> nat \<Rightarrow> bool" where
  "set_contains xs x = (x \<in> set xs)"

definition dlist_append :: "nat list \<Rightarrow> nat \<Rightarrow> nat list" where
  "dlist_append xs x = xs @ [x]"

definition dlist_prepend :: "nat list \<Rightarrow> nat \<Rightarrow> nat list" where
  "dlist_prepend xs x = x # xs"

definition dlist_remove :: "nat list \<Rightarrow> nat \<Rightarrow> nat list" where
  "dlist_remove xs x = remove1 x xs"

subsection \<open>Names of unnamed objects\<close>

text \<open>\<^verbatim>\<open>snprintf\<close> with \<^verbatim>\<open>"%zu"\<close>: the decimal digits of a number.\<close>

fun fmt_zu :: "nat \<Rightarrow> string" where
  "fmt_zu n =
     (if n < 10 then [''0123456789'' ! n]
      else fmt_zu (n div 10) @ [''0123456789'' ! (n mod 10)])"

declare fmt_zu.simps [simp del]

section \<open>Creating variables, code blocks and functions\<close>

text \<open>
  \<^verbatim>\<open>ir_var_create\<close>. The name \<open>None\<close> is the C argument \<^verbatim>\<open>NULL\<close>. Allocation is taken
  to succeed.
\<close>

definition ir_var_create :: "ir_prim \<Rightarrow> string option \<Rightarrow> ir_func \<Rightarrow> var_ptr \<times> ir_func" where
  "ir_var_create type name func =
     (let v = heap_top func;
          nm = (case name of Some n \<Rightarrow> n | None \<Rightarrow> fmt_zu (length (vars_list func)))
      in (v, func\<lparr>heap_top := Suc v,
                  var_heap := (var_heap func)(v := Some
                    \<lparr>var_name = nm, var_prim_type = type, used_at = [], assigned_at = []\<rparr>),
                  vars_list := dlist_append (vars_list func) v\<rparr>))"

text \<open>\<^verbatim>\<open>ir_code_create\<close>.\<close>

definition ir_code_create :: "string option \<Rightarrow> ir_func \<Rightarrow> code_ptr \<times> ir_func" where
  "ir_code_create name func =
     (let c = heap_top func;
          nm = (case name of Some n \<Rightarrow> n | None \<Rightarrow> fmt_zu (length (code_list func)))
      in (c, func\<lparr>heap_top := Suc c,
                  code_heap := (code_heap func)(c := Some
                    \<lparr>code_name = nm, insns = [], pred = [], succ = [],
                     visited = False, dfs_index = 0\<rparr>),
                  code_list := dlist_append (code_list func) c\<rparr>))"

text \<open>
  \<^verbatim>\<open>ir_func_create\<close>: one variable of type \<^verbatim>\<open>IR_PRIM_S32\<close> per argument, in order,
  then the entry block. The list \<open>args_name\<close> has \<^verbatim>\<open>args_len\<close> elements; an element
  \<open>None\<close> is an argument without a name.
\<close>

fun create_args :: "string option list \<Rightarrow> ir_func \<Rightarrow> ir_func" where
  "create_args [] func = func"
| "create_args (n # ns) func =
     (case ir_var_create IR_PRIM_S32 n func of
        (v, func') \<Rightarrow> create_args ns (func'\<lparr>args := args func' @ [v]\<rparr>))"

definition ir_func_create :: "string \<Rightarrow> string option \<Rightarrow> string option list \<Rightarrow> ir_func" where
  "ir_func_create name entry_name args_name =
     (let func0 = \<lparr>func_name = name, args = [], entry = 0, code_list = [], vars_list = [],
                    enforce_ssa = False, var_heap = (\<lambda>_. None), code_heap = (\<lambda>_. None),
                    insn_heap = (\<lambda>_. None), heap_top = 1\<rparr>;
          func1 = create_args args_name func0
      in (case ir_code_create entry_name func1 of
            (c, func2) \<Rightarrow> func2\<lparr>entry := c\<rparr>))"

section \<open>Deleting and replacing\<close>

text \<open>\<^verbatim>\<open>if (!op.is_const) set_remove(&op.var->used_at, insn)\<close>\<close>

definition unuse :: "insn_ptr \<Rightarrow> ir_operand \<Rightarrow> ir_func \<Rightarrow> ir_func result" where
  "unuse insn op s =
     (case op of
        Op_const k \<Rightarrow> Inr s
      | Op_var v \<Rightarrow> upd_var v (\<lambda>x. x\<lparr>used_at := set_remove (used_at x) insn\<rparr>) s)"

text \<open>\<^verbatim>\<open>if (!op.is_const) set_add(&op.var->used_at, insn)\<close>\<close>

definition use :: "insn_ptr \<Rightarrow> ir_operand \<Rightarrow> ir_func \<Rightarrow> ir_func result" where
  "use insn op s =
     (case op of
        Op_const k \<Rightarrow> Inr s
      | Op_var v \<Rightarrow> upd_var v (\<lambda>x. x\<lparr>used_at := set_add (used_at x) insn\<rparr>) s)"

text \<open>
  \<^verbatim>\<open>ir_insn_delete\<close>. For \<^verbatim>\<open>IR_FLOW_CALL_PTR\<close> the source tests
  \<^verbatim>\<open>flow->f_call_ptr.addr.is_const\<close> (not its negation) before it removes the
  instruction from \<^verbatim>\<open>addr.var->used_at\<close>: for a constant address it follows the
  union's variable pointer, which holds no variable; for a variable address it does
  nothing.
\<close>

definition ir_insn_delete :: "insn_ptr \<Rightarrow> ir_func \<Rightarrow> ir_func result" where
  "ir_insn_delete insn s =
     bindE (deref (insn_heap s) insn) (\<lambda>i.
     bindE
       (case i of
          Expr p d ex \<Rightarrow>
            bindE (upd_var d (\<lambda>x. x\<lparr>assigned_at := dlist_remove (assigned_at x) insn\<rparr>) s)
              (\<lambda>s1.
                case ex of
                  E_unary oper v \<Rightarrow> unuse insn v s1
                | E_binary oper lhs rhs \<Rightarrow> bindE (unuse insn lhs s1) (unuse insn rhs)
                | E_combinator from \<Rightarrow> foldE (\<lambda>c. unuse insn (bind c)) from s1
                | E_undefined \<Rightarrow> Inr s1)
        | Flow p fl \<Rightarrow>
            (case fl of
               F_branch cond target \<Rightarrow> unuse insn cond s
             | F_return value \<Rightarrow>
                 (case value of None \<Rightarrow> Inr s | Some v \<Rightarrow> unuse insn v s)
             | F_call_direct as label \<Rightarrow> foldE (unuse insn) as s
             | F_call_ptr as addr \<Rightarrow>
                 bindE (if is_const addr then Inl BadPointer else Inr s)
                   (foldE (unuse insn) as)
             | F_jump target \<Rightarrow> Inr s))
       (\<lambda>s2.
     bindE (upd_code (parent i) (\<lambda>c. c\<lparr>insns := dlist_remove (insns c) insn\<rparr>) s2) (\<lambda>s3.
     Inr (s3\<lparr>insn_heap := (insn_heap s3)(insn := None)\<rparr>))))"

text \<open>
  \<^verbatim>\<open>ir_var_delete\<close>: deletes every instruction that uses or assigns the variable,
  unlinks the variable from \<^verbatim>\<open>vars_list\<close> and frees it. \<^verbatim>\<open>func->args\<close> is not
  touched.
\<close>

definition ir_var_delete :: "var_ptr \<Rightarrow> ir_func \<Rightarrow> ir_func result" where
  "ir_var_delete v s =
     bindE (deref (var_heap s) v) (\<lambda>x.
     let to_delete = fold (\<lambda>e acc. set_add acc e) (assigned_at x) (set_addall [] (used_at x))
     in bindE (foldE ir_insn_delete to_delete s) (\<lambda>s1.
        Inr (s1\<lparr>vars_list := dlist_remove (vars_list s1) v,
                 var_heap := (var_heap s1)(v := None)\<rparr>)))"

text \<open>
  The body of the loop of \<^verbatim>\<open>ir_var_replace\<close> for one instruction of
  \<^verbatim>\<open>var->used_at\<close>. The unary operand, every non-constant call argument and a
  non-constant return value are overwritten without a comparison with \<open>v\<close>.
\<close>

definition replace_in_insn :: "var_ptr \<Rightarrow> ir_operand \<Rightarrow> insn_ptr \<Rightarrow> ir_func \<Rightarrow> ir_func result" where
  "replace_in_insn v value insn s =
     bindE (deref (insn_heap s) insn) (\<lambda>i.
       case i of
         Expr p d ex \<Rightarrow>
           (case ex of
              E_unary oper x \<Rightarrow>
                bindE (upd_insn insn (\<lambda>_. Expr p d (E_unary oper value)) s) (use insn value)
            | E_binary oper lhs rhs \<Rightarrow>
                bindE (if lhs = Op_var v
                       then bindE (upd_insn insn (\<lambda>_. Expr p d (E_binary oper value rhs)) s)
                              (use insn value)
                       else Inr s) (\<lambda>s1.
                if rhs = Op_var v
                then bindE (upd_insn insn
                              (\<lambda>j. case j of
                                      Expr p' d' (E_binary oper' lhs' rhs') \<Rightarrow>
                                        Expr p' d' (E_binary oper' lhs' value)
                                    | _ \<Rightarrow> j) s1)
                       (use insn value)
                else Inr s1)
            | E_combinator from \<Rightarrow>
                bindE (upd_insn insn
                         (\<lambda>_. Expr p d (E_combinator
                            (map (\<lambda>c. if bind c = Op_var v then Ir_combinator (prev c) value else c)
                               from))) s)
                  (foldE (\<lambda>c. if bind c = Op_var v then use insn value else Inr) from)
            | E_undefined \<Rightarrow> Inr s)
       | Flow p fl \<Rightarrow>
           (case fl of
              F_branch cond target \<Rightarrow>
                if cond = Op_var v
                then bindE (upd_insn insn (\<lambda>_. Flow p (F_branch value target)) s) (use insn value)
                else Inr s
            | F_call_ptr as addr \<Rightarrow>
                bindE (if addr = Op_var v
                       then bindE (upd_insn insn (\<lambda>_. Flow p (F_call_ptr as value)) s)
                              (use insn value)
                       else Inr s) (\<lambda>s1.
                bindE (upd_insn insn
                         (\<lambda>j. case j of
                                 Flow p' (F_call_ptr as' addr') \<Rightarrow>
                                   Flow p' (F_call_ptr
                                     (map (\<lambda>a. if is_const a then a else value) as') addr')
                               | _ \<Rightarrow> j) s1)
                  (foldE (\<lambda>a. if is_const a then Inr else use insn value) as))
            | F_call_direct as label \<Rightarrow>
                bindE (upd_insn insn
                         (\<lambda>_. Flow p (F_call_direct
                            (map (\<lambda>a. if is_const a then a else value) as) label)) s)
                  (foldE (\<lambda>a. if is_const a then Inr else use insn value) as)
            | F_return val \<Rightarrow>
                (case val of
                   None \<Rightarrow> Inr s
                 | Some x \<Rightarrow>
                     if is_const x then Inr s
                     else bindE (upd_insn insn (\<lambda>_. Flow p (F_return (Some value))) s)
                            (use insn value))
            | F_jump target \<Rightarrow> Inr s))"

text \<open>\<^verbatim>\<open>ir_var_replace\<close>: aborts when asked to replace a variable with itself.\<close>

definition ir_var_replace :: "var_ptr \<Rightarrow> ir_operand \<Rightarrow> ir_func \<Rightarrow> ir_func result" where
  "ir_var_replace v value s =
     (if value = Op_var v then Inl Abort
      else bindE (deref (var_heap s) v) (\<lambda>x.
           bindE (foldE (replace_in_insn v value) (used_at x) s) (\<lambda>s1.
           upd_var v (\<lambda>y. y\<lparr>used_at := []\<rparr>) s1)))"

section \<open>Builders\<close>

text \<open>
  The test every builder but \<^verbatim>\<open>ir_add_jump\<close> and \<^verbatim>\<open>ir_add_branch\<close> makes first:
  the block is not empty and its last instruction is a jump or a branch.
\<close>

definition after_jump_or_branch :: "code_ptr \<Rightarrow> ir_func \<Rightarrow> bool result" where
  "after_jump_or_branch code s =
     bindE (deref (code_heap s) code) (\<lambda>c.
       case insns c of
         [] \<Rightarrow> Inr False
       | x # xs \<Rightarrow>
           bindE (deref (insn_heap s) (last (insns c))) (\<lambda>i.
             Inr (case i of
                    Flow p (F_jump t) \<Rightarrow> True
                  | Flow p (F_branch cd t) \<Rightarrow> True
                  | _ \<Rightarrow> False)))"

text \<open>\<^verbatim>\<open>op.is_const ? op.iconst.prim_type : op.var->prim_type\<close>\<close>

definition operand_prim :: "ir_operand \<Rightarrow> ir_func \<Rightarrow> ir_prim result" where
  "operand_prim op s =
     (case op of
        Op_const k \<Rightarrow> Inr (prim_type k)
      | Op_var v \<Rightarrow> bindE (deref (var_heap s) v) (\<lambda>x. Inr (var_prim_type x)))"

text \<open>\<^verbatim>\<open>calloc\<close> of an instruction: a fresh address holding the instruction.\<close>

definition new_insn :: "ir_insn \<Rightarrow> ir_func \<Rightarrow> insn_ptr \<times> ir_func" where
  "new_insn i s =
     (heap_top s, s\<lparr>heap_top := Suc (heap_top s),
                     insn_heap := (insn_heap s)(heap_top s := Some i)\<rparr>)"

definition append_assignment :: "var_ptr \<Rightarrow> insn_ptr \<Rightarrow> ir_func \<Rightarrow> ir_func result" where
  "append_assignment d e s =
     upd_var d (\<lambda>x. x\<lparr>assigned_at := dlist_append (assigned_at x) e\<rparr>) s"

definition append_insn :: "code_ptr \<Rightarrow> insn_ptr \<Rightarrow> ir_func \<Rightarrow> ir_func result" where
  "append_insn code e s = upd_code code (\<lambda>c. c\<lparr>insns := dlist_append (insns c) e\<rparr>) s"

text \<open>\<^verbatim>\<open>if (dest->assigned_at.len && code->func->enforce_ssa) abort\<close>\<close>

definition check_ssa :: "var_ptr \<Rightarrow> ir_func \<Rightarrow> unit result" where
  "check_ssa d s =
     bindE (deref (var_heap s) d) (\<lambda>x.
       if assigned_at x \<noteq> [] \<and> enforce_ssa s then Inl Abort else Inr ())"

text \<open>\<^verbatim>\<open>ir_add_combinator\<close>\<close>

definition ir_add_combinator :: "code_ptr \<Rightarrow> var_ptr \<Rightarrow> ir_combinator list \<Rightarrow> ir_func \<Rightarrow> ir_func result" where
  "ir_add_combinator code d from s =
     (case new_insn (Expr code d (E_combinator from)) s of (e, s0) \<Rightarrow>
     bindE (after_jump_or_branch code s0) (\<lambda>t.
     if t then Inl Abort else
     bindE (check_ssa d s0) (\<lambda>_.
     bindE (foldE (\<lambda>c s'.
              bindE (operand_prim (bind c) s') (\<lambda>bp.
              bindE (deref (var_heap s') d) (\<lambda>x.
              if bp \<noteq> var_prim_type x then Inl Abort else use e (bind c) s'))) from s0) (\<lambda>s1.
     bindE (append_assignment d e s1) (append_insn code e)))))"

text \<open>\<^verbatim>\<open>ir_add_expr1\<close>\<close>

definition ir_add_expr1 :: "code_ptr \<Rightarrow> var_ptr \<Rightarrow> ir_op1_type \<Rightarrow> ir_operand \<Rightarrow> ir_func \<Rightarrow> ir_func result" where
  "ir_add_expr1 code d oper operand s =
     (case new_insn (Expr code d (E_unary oper operand)) s of (e, s0) \<Rightarrow>
     bindE (after_jump_or_branch code s0) (\<lambda>t.
     if t then Inl Abort else
     bindE (use e operand s0) (\<lambda>s1.
     bindE (if oper = IR_OP1_SNEZ \<or> oper = IR_OP1_SEQZ
            then bindE (deref (var_heap s1) d) (\<lambda>x.
                   if var_prim_type x \<noteq> IR_PRIM_BOOL then Inl Abort else Inr ())
            else if oper \<noteq> IR_OP1_MOV
            then bindE (operand_prim operand s1) (\<lambda>op.
                 bindE (deref (var_heap s1) d) (\<lambda>x.
                   if op \<noteq> var_prim_type x then Inl Abort else Inr ()))
            else Inr ()) (\<lambda>_.
     bindE (check_ssa d s1) (\<lambda>_.
     bindE (append_assignment d e s1) (append_insn code e))))))"

text \<open>\<^verbatim>\<open>ir_add_expr2\<close>\<close>

definition ir_add_expr2 :: "code_ptr \<Rightarrow> var_ptr \<Rightarrow> ir_op2_type \<Rightarrow> ir_operand \<Rightarrow> ir_operand \<Rightarrow> ir_func \<Rightarrow> ir_func result" where
  "ir_add_expr2 code d oper lhs rhs s =
     (case new_insn (Expr code d (E_binary oper lhs rhs)) s of (e, s0) \<Rightarrow>
     bindE (after_jump_or_branch code s0) (\<lambda>t.
     if t then Inl Abort else
     bindE (operand_prim lhs s0) (\<lambda>lhs_prim.
     bindE (deref (var_heap s0) d) (\<lambda>x.
     if lhs_prim \<noteq> var_prim_type x then Inl Abort else
     bindE (operand_prim rhs s0) (\<lambda>rhs_prim.
     if rhs_prim \<noteq> var_prim_type x then Inl Abort else
     bindE (use e lhs s0) (\<lambda>s1.
     bindE (use e rhs s1) (\<lambda>s2.
     bindE (check_ssa d s2) (\<lambda>_.
     bindE (append_assignment d e s2) (append_insn code e)))))))))"

text \<open>\<^verbatim>\<open>ir_add_undefined\<close>\<close>

definition ir_add_undefined :: "code_ptr \<Rightarrow> var_ptr \<Rightarrow> ir_func \<Rightarrow> ir_func result" where
  "ir_add_undefined code d s =
     (case new_insn (Expr code d E_undefined) s of (e, s0) \<Rightarrow>
     bindE (after_jump_or_branch code s0) (\<lambda>t.
     if t then Inl Abort else
     bindE (check_ssa d s0) (\<lambda>_.
     bindE (append_assignment d e s0) (append_insn code e))))"

text \<open>\<^verbatim>\<open>ir_add_call_direct\<close>\<close>

definition ir_add_call_direct :: "code_ptr \<Rightarrow> string \<Rightarrow> ir_operand list \<Rightarrow> ir_func \<Rightarrow> ir_func result" where
  "ir_add_call_direct from label params s =
     (case new_insn (Flow from (F_call_direct params label)) s of (fl, s0) \<Rightarrow>
     bindE (after_jump_or_branch from s0) (\<lambda>t.
     if t then Inl Abort else
     bindE (foldE (use fl) params s0) (append_insn from fl)))"

text \<open>\<^verbatim>\<open>ir_add_call_ptr\<close>\<close>

definition ir_add_call_ptr :: "code_ptr \<Rightarrow> ir_operand \<Rightarrow> ir_operand list \<Rightarrow> ir_func \<Rightarrow> ir_func result" where
  "ir_add_call_ptr from funcptr params s =
     (case new_insn (Flow from (F_call_ptr params funcptr)) s of (fl, s0) \<Rightarrow>
     bindE (after_jump_or_branch from s0) (\<lambda>t.
     if t then Inl Abort else
     bindE (use fl funcptr s0) (\<lambda>s1.
     bindE (foldE (use fl) params s1) (append_insn from fl))))"

text \<open>
  The two updates both \<^verbatim>\<open>ir_add_jump\<close> and \<^verbatim>\<open>ir_add_branch\<close> make:
  \<^verbatim>\<open>set_add(&from->succ, to); set_add(&to->pred, from)\<close>.
\<close>

definition link_codes :: "code_ptr \<Rightarrow> code_ptr \<Rightarrow> ir_func \<Rightarrow> ir_func result" where
  "link_codes from to s =
     bindE (upd_code from (\<lambda>c. c\<lparr>succ := set_add (succ c) to\<rparr>) s)
       (upd_code to (\<lambda>c. c\<lparr>pred := set_add (pred c) from\<rparr>))"

text \<open>\<^verbatim>\<open>ir_add_jump\<close>: no test of the block's last instruction.\<close>

definition ir_add_jump :: "code_ptr \<Rightarrow> code_ptr \<Rightarrow> ir_func \<Rightarrow> ir_func result" where
  "ir_add_jump from to s =
     (case new_insn (Flow from (F_jump to)) s of (fl, s0) \<Rightarrow>
     bindE (link_codes from to s0) (append_insn from fl))"

text \<open>\<^verbatim>\<open>ir_add_branch\<close>: the condition must be a boolean; no test of the block's last
  instruction.\<close>

definition ir_add_branch :: "code_ptr \<Rightarrow> ir_operand \<Rightarrow> code_ptr \<Rightarrow> ir_func \<Rightarrow> ir_func result" where
  "ir_add_branch from cond to s =
     (case new_insn (Flow from (F_branch cond to)) s of (fl, s0) \<Rightarrow>
     bindE (operand_prim cond s0) (\<lambda>cond_prim.
     if cond_prim \<noteq> IR_PRIM_BOOL then Inl Abort else
     bindE (use fl cond s0) (\<lambda>s1.
     bindE (link_codes from to s1) (append_insn from fl))))"

text \<open>\<^verbatim>\<open>ir_add_return0\<close>\<close>

definition ir_add_return0 :: "code_ptr \<Rightarrow> ir_func \<Rightarrow> ir_func result" where
  "ir_add_return0 from s =
     (case new_insn (Flow from (F_return None)) s of (fl, s0) \<Rightarrow>
     bindE (after_jump_or_branch from s0) (\<lambda>t.
     if t then Inl Abort else append_insn from fl s0))"

text \<open>\<^verbatim>\<open>ir_add_return1\<close>\<close>

definition ir_add_return1 :: "code_ptr \<Rightarrow> ir_operand \<Rightarrow> ir_func \<Rightarrow> ir_func result" where
  "ir_add_return1 from value s =
     (case new_insn (Flow from (F_return (Some value))) s of (fl, s0) \<Rightarrow>
     bindE (after_jump_or_branch from s0) (\<lambda>t.
     if t then Inl Abort else
     bindE (use fl value s0) (append_insn from fl)))"

section \<open>Control flow edges\<close>

text \<open>\<^verbatim>\<open>flow->type == IR_FLOW_JUMP || flow->type == IR_FLOW_BRANCH\<close>\<close>

definition jump_or_branch :: "ir_flow \<Rightarrow> bool" where
  "jump_or_branch fl =
     (case fl of
        F_jump target \<Rightarrow> True
      | F_branch cond target \<Rightarrow> True
      | _ \<Rightarrow> False)"

text \<open>
  The member \<^verbatim>\<open>flow->f_jump.target\<close>, which \<^verbatim>\<open>ir_func_recalc_flow\<close> and
  \<^verbatim>\<open>ir_code_delete\<close> read when the type is \<^verbatim>\<open>IR_FLOW_JUMP\<close> or
  \<^verbatim>\<open>IR_FLOW_BRANCH\<close>. In \<^verbatim>\<open>struct ir_flow\<close> (\<^verbatim>\<open>ir_types.h\<close>) the member
  \<^verbatim>\<open>f_jump\<close> of the union holds the target alone, and the member \<^verbatim>\<open>f_branch\<close>
  holds the condition first and the target second: for a branch, \<^verbatim>\<open>f_jump.target\<close>
  lies over \<^verbatim>\<open>f_branch.cond\<close>, not over \<^verbatim>\<open>f_branch.target\<close>. The header
  declares the condition as a pointer to its variable, and \<^verbatim>\<open>ir.c\<close> keeps an operand
  there: the value read for a branch is the pointer of the condition's variable, and a
  constant condition holds no address (\<open>None\<close>). For the other kinds of instruction
  the member is not read.
\<close>

definition f_jump_target :: "ir_flow \<Rightarrow> code_ptr option" where
  "f_jump_target fl =
     (case fl of
        F_jump target \<Rightarrow> Some target
      | F_branch cond target \<Rightarrow> (case cond of Op_var v \<Rightarrow> Some v | Op_const k \<Rightarrow> None)
      | _ \<Rightarrow> None)"

text \<open>
  The body of the inner loop of \<^verbatim>\<open>ir_func_recalc_flow\<close>:
  \<^verbatim>\<open>set_add(&flow->f_jump.target->pred, code); set_add(&code->succ, flow->f_jump.target)\<close>
  for a jump or a branch.
\<close>

definition recalc_insn :: "code_ptr \<Rightarrow> insn_ptr \<Rightarrow> ir_func \<Rightarrow> ir_func result" where
  "recalc_insn code insn s =
     bindE (deref (insn_heap s) insn) (\<lambda>i.
       case i of
         Expr p d ex \<Rightarrow> Inr s
       | Flow p fl \<Rightarrow>
           if jump_or_branch fl
           then (case f_jump_target fl of
                   None \<Rightarrow> Inl BadPointer
                 | Some target \<Rightarrow>
                     bindE (upd_code target (\<lambda>c. c\<lparr>pred := set_add (pred c) code\<rparr>) s)
                       (upd_code code (\<lambda>c. c\<lparr>succ := set_add (succ c) target\<rparr>)))
           else Inr s)"

definition recalc_code :: "code_ptr \<Rightarrow> ir_func \<Rightarrow> ir_func result" where
  "recalc_code code s =
     bindE (deref (code_heap s) code) (\<lambda>c. foldE (recalc_insn code) (insns c) s)"

definition clear_flow :: "code_ptr \<Rightarrow> ir_func \<Rightarrow> ir_func result" where
  "clear_flow code s = upd_code code (\<lambda>c. c\<lparr>pred := [], succ := []\<rparr>) s"

text \<open>\<^verbatim>\<open>ir_func_recalc_flow\<close>\<close>

definition ir_func_recalc_flow :: "ir_func \<Rightarrow> ir_func result" where
  "ir_func_recalc_flow s =
     bindE (foldE clear_flow (code_list s) s) (\<lambda>s1.
     foldE recalc_code (code_list s1) s1)"

section \<open>Deleting code blocks\<close>

text \<open>
  \<^verbatim>\<open>remove_combinator_path\<close>: drops the first entry whose \<^verbatim>\<open>prev\<close> is the block;
  a combinator left with one entry is replaced by that entry's operand and deleted.
\<close>

fun remove_path :: "insn_ptr \<Rightarrow> code_ptr \<Rightarrow> ir_combinator list \<Rightarrow> ir_func \<Rightarrow> (ir_combinator list \<times> ir_func) result" where
  "remove_path e code [] s = Inr ([], s)"
| "remove_path e code (c # cs) s =
     (if prev c = code then bindE (unuse e (bind c) s) (\<lambda>s1. Inr (cs, s1))
      else bindE (remove_path e code cs s) (\<lambda>(cs', s1). Inr (c # cs', s1)))"

definition remove_combinator_path :: "insn_ptr \<Rightarrow> code_ptr \<Rightarrow> ir_func \<Rightarrow> ir_func result" where
  "remove_combinator_path e code s =
     bindE (deref (insn_heap s) e) (\<lambda>i.
       case i of
         Expr p d (E_combinator from) \<Rightarrow>
           bindE (remove_path e code from s) (\<lambda>(from', s1).
           bindE (upd_insn e (\<lambda>_. Expr p d (E_combinator from')) s1) (\<lambda>s2.
           if length from' = 1
           then bindE (ir_var_replace d (bind (hd from')) s2) (ir_insn_delete e)
           else Inr s2))
       | _ \<Rightarrow> Inr s)"

text \<open>
  \<^verbatim>\<open>ir_code_delete\<close>. Each walk over an instruction list reads the next node before
  it handles the current one, and only the current one is unlinked, so the walk sees the
  instructions the list held when it began. The final loop deletes the head of
  \<^verbatim>\<open>code->insns\<close> until the list is empty; every instruction of the list has the
  block as its parent.
\<close>

definition delete_jumps_to :: "code_ptr \<Rightarrow> insn_ptr \<Rightarrow> ir_func \<Rightarrow> ir_func result" where
  "delete_jumps_to code insn s =
     bindE (deref (insn_heap s) insn) (\<lambda>i.
       case i of
         Expr p d ex \<Rightarrow> Inr s
       | Flow p fl \<Rightarrow>
           if jump_or_branch fl \<and> f_jump_target fl = Some code then ir_insn_delete insn s
           else Inr s)"

definition update_phi :: "code_ptr \<Rightarrow> insn_ptr \<Rightarrow> ir_func \<Rightarrow> ir_func result" where
  "update_phi code insn s =
     bindE (deref (insn_heap s) insn) (\<lambda>i.
       case i of
         Expr p d (E_combinator from) \<Rightarrow> remove_combinator_path insn code s
       | _ \<Rightarrow> Inr s)"

definition ir_code_delete :: "code_ptr \<Rightarrow> ir_func \<Rightarrow> ir_func result" where
  "ir_code_delete code s =
     bindE (deref (code_heap s) code) (\<lambda>c.
     bindE (foldE (\<lambda>p s'.
              bindE (upd_code p (\<lambda>x. x\<lparr>succ := set_remove (succ x) code\<rparr>) s') (\<lambda>s''.
              bindE (deref (code_heap s'') p) (\<lambda>pc.
              foldE (delete_jumps_to code) (insns pc) s''))) (pred c) s) (\<lambda>s1.
     bindE (deref (code_heap s1) code) (\<lambda>c1.
     bindE (foldE (\<lambda>q s'.
              bindE (upd_code q (\<lambda>x. x\<lparr>pred := set_remove (pred x) code\<rparr>) s') (\<lambda>s''.
              bindE (deref (code_heap s'') q) (\<lambda>qc.
              foldE (update_phi code) (insns qc) s''))) (succ c1) s1) (\<lambda>s2.
     bindE (deref (code_heap s2) code) (\<lambda>c2.
     bindE (foldE ir_insn_delete (insns c2) s2) (\<lambda>s3.
     Inr (s3\<lparr>code_list := dlist_remove (code_list s3) code,
              code_heap := (code_heap s3)(code := None)\<rparr>)))))))"


section \<open>Conversion to SSA form: combinators and renaming\<close>

text \<open>
  \<^verbatim>\<open>create_combinator\<close>: one entry per predecessor, each bound to the constant 0 of
  the variable's type; the new expression enters \<^verbatim>\<open>dest->used_at\<close> once per
  predecessor and is put in front of the block's instructions.
\<close>

definition create_combinator :: "code_ptr \<Rightarrow> var_ptr \<Rightarrow> ir_func \<Rightarrow> ir_func result" where
  "create_combinator code d s =
     bindE (deref (code_heap s) code) (\<lambda>c.
     bindE (deref (var_heap s) d) (\<lambda>x.
     case new_insn (Expr code d (E_combinator
            (map (\<lambda>p. Ir_combinator p (Op_const (Ir_const (var_prim_type x) 0 0))) (pred c)))) s
     of (e, s0) \<Rightarrow>
     bindE (foldE (\<lambda>p. upd_var d (\<lambda>y. y\<lparr>used_at := set_add (used_at y) e\<rparr>)) (pred c) s0) (\<lambda>s1.
     bindE (append_assignment d e s1) (\<lambda>s2.
     upd_code code (\<lambda>y. y\<lparr>insns := dlist_prepend (insns y) e\<rparr>) s2))))"

text \<open>
  \<^verbatim>\<open>set_add(&to->used_at, insn); x.var = to\<close> for the operand positions the
  function \<open>g\<close> rewrites. The pointer \<open>to\<close> is \<open>None\<close> while no assignment has been
  renamed yet (the C value \<^verbatim>\<open>NULL\<close>); the source follows it without a test.
\<close>

definition rename_at :: "insn_ptr \<Rightarrow> var_ptr option \<Rightarrow> (var_ptr \<Rightarrow> ir_insn \<Rightarrow> ir_insn) \<Rightarrow> ir_func \<Rightarrow> ir_func result" where
  "rename_at insn to g s =
     (case to of
        None \<Rightarrow> Inl BadPointer
      | Some t \<Rightarrow>
          bindE (upd_var t (\<lambda>y. y\<lparr>used_at := set_add (used_at y) insn\<rparr>) s)
            (upd_insn insn (g t)))"

definition rn :: "var_ptr \<Rightarrow> var_ptr \<Rightarrow> ir_operand \<Rightarrow> ir_operand" where
  "rn from t op = (if op = Op_var from then Op_var t else op)"

text \<open>\<^verbatim>\<open>replace_insn_var\<close>: combinators and undefined expressions are left alone.\<close>

definition replace_insn_var :: "insn_ptr \<Rightarrow> var_ptr \<Rightarrow> var_ptr option \<Rightarrow> ir_func \<Rightarrow> ir_func result" where
  "replace_insn_var insn from to s =
     bindE (upd_var from (\<lambda>y. y\<lparr>used_at := set_remove (used_at y) insn\<rparr>) s) (\<lambda>s1.
     bindE (deref (insn_heap s1) insn) (\<lambda>i.
       case i of
         Expr p d ex \<Rightarrow>
           (case ex of
              E_binary oper lhs rhs \<Rightarrow>
                bindE (if lhs = Op_var from
                       then rename_at insn to (\<lambda>t _. Expr p d (E_binary oper (Op_var t) rhs)) s1
                       else Inr s1) (\<lambda>s2.
                if rhs = Op_var from
                then rename_at insn to
                       (\<lambda>t j. case j of
                                 Expr p' d' (E_binary oper' lhs' rhs') \<Rightarrow>
                                   Expr p' d' (E_binary oper' lhs' (Op_var t))
                               | _ \<Rightarrow> j) s2
                else Inr s2)
            | E_unary oper x \<Rightarrow>
                if x = Op_var from
                then rename_at insn to (\<lambda>t _. Expr p d (E_unary oper (Op_var t))) s1
                else Inr s1
            | _ \<Rightarrow> Inr s1)
       | Flow p fl \<Rightarrow>
           (case fl of
              F_branch cond target \<Rightarrow>
                if cond = Op_var from
                then rename_at insn to (\<lambda>t _. Flow p (F_branch (Op_var t) target)) s1
                else Inr s1
            | F_return val \<Rightarrow>
                if val = Some (Op_var from)
                then rename_at insn to (\<lambda>t _. Flow p (F_return (Some (Op_var t)))) s1
                else Inr s1
            | F_call_direct as label \<Rightarrow>
                if Op_var from \<in> set as
                then rename_at insn to (\<lambda>t _. Flow p (F_call_direct (map (rn from t) as) label)) s1
                else Inr s1
            | F_call_ptr as addr \<Rightarrow>
                bindE (if addr = Op_var from
                       then rename_at insn to (\<lambda>t _. Flow p (F_call_ptr as (Op_var t))) s1
                       else Inr s1) (\<lambda>s2.
                if Op_var from \<in> set as
                then rename_at insn to
                       (\<lambda>t j. case j of
                                 Flow p' (F_call_ptr as' addr') \<Rightarrow>
                                   Flow p' (F_call_ptr (map (rn from t) as') addr')
                               | _ \<Rightarrow> j) s2
                else Inr s2)
            | F_jump target \<Rightarrow> Inr s1)))"

text \<open>
  \<^verbatim>\<open>replace_phi_vars\<close>: walks the leading combinators of \<open>code\<close>; at the first one
  whose destination is in the set \<open>from\<close> it rewrites the entries with
  \<^verbatim>\<open>from[i].prev == pred && !from[i].bind.is_const\<close> and returns.
\<close>

definition rebind :: "code_ptr \<Rightarrow> var_ptr \<Rightarrow> ir_combinator \<Rightarrow> ir_combinator" where
  "rebind pr to c =
     (if prev c = pr \<and> \<not> is_const (bind c) then Ir_combinator (prev c) (Op_var to) else c)"

fun replace_phi_walk :: "code_ptr \<Rightarrow> var_ptr list \<Rightarrow> var_ptr \<Rightarrow> insn_ptr list \<Rightarrow> ir_func \<Rightarrow> ir_func result" where
  "replace_phi_walk pr from to [] s = Inr s"
| "replace_phi_walk pr from to (insn # rest) s =
     bindE (deref (insn_heap s) insn) (\<lambda>i.
       case i of
         Flow p fl \<Rightarrow> Inr s
       | Expr p d ex \<Rightarrow>
           (case ex of
              E_combinator fr \<Rightarrow>
                if set_contains from d
                then bindE (foldE (\<lambda>c. if prev c = pr \<and> \<not> is_const (bind c)
                                        then upd_var to (\<lambda>y. y\<lparr>used_at := set_add (used_at y) insn\<rparr>)
                                        else Inr) fr s)
                       (upd_insn insn (\<lambda>_. Expr p d (E_combinator (map (rebind pr to) fr))))
                else replace_phi_walk pr from to rest s
            | _ \<Rightarrow> Inr s))"

definition replace_phi_vars :: "code_ptr \<Rightarrow> code_ptr \<Rightarrow> var_ptr list \<Rightarrow> var_ptr \<Rightarrow> ir_func \<Rightarrow> ir_func result" where
  "replace_phi_vars pr code from to s =
     bindE (deref (code_heap s) code) (\<lambda>c. replace_phi_walk pr from to (insns c) s)"

text \<open>
  The body of the instruction loop of \<^verbatim>\<open>rename_assignments\<close>, on the current name
  \<open>to\<close>, the set \<open>phi_from\<close> and the function.
\<close>

definition rename_insn :: "var_ptr \<Rightarrow> insn_ptr \<Rightarrow> var_ptr option \<times> var_ptr list \<times> ir_func \<Rightarrow> (var_ptr option \<times> var_ptr list \<times> ir_func) result" where
  "rename_insn from insn st =
     (case st of (to, phi_from, s) \<Rightarrow>
     bindE (replace_insn_var insn from to s) (\<lambda>s1.
     bindE (deref (insn_heap s1) insn) (\<lambda>i.
       case i of
         Flow p fl \<Rightarrow> Inr (to, phi_from, s1)
       | Expr p d ex \<Rightarrow>
           if d = from
           then bindE (upd_var from (\<lambda>y. y\<lparr>assigned_at := dlist_remove (assigned_at y) insn\<rparr>) s1) (\<lambda>s2.
                bindE (deref (var_heap s2) from) (\<lambda>x.
                case ir_var_create (var_prim_type x) None s2 of (t, s3) \<Rightarrow>
                bindE (upd_insn insn (\<lambda>_. Expr p t ex) s3) (\<lambda>s4.
                bindE (append_assignment t insn s4) (\<lambda>s5.
                Inr (Some t,
                     (case ex of E_combinator fr \<Rightarrow> set_add phi_from t | _ \<Rightarrow> phi_from),
                     s5)))))
           else Inr (to, phi_from, s1))))"

text \<open>
  \<^verbatim>\<open>rename_assignments\<close>, a depth-first walk; the fuel bounds the depth of the
  recursion. The set \<open>phi_from\<close> is shared by all calls, the name \<open>to\<close> is the caller's.
\<close>

fun rename_assignments :: "nat \<Rightarrow> code_ptr \<Rightarrow> var_ptr \<Rightarrow> var_ptr option \<Rightarrow> var_ptr list \<times> ir_func \<Rightarrow> (var_ptr list \<times> ir_func) result" where
  "rename_assignments 0 code from to st = Inl OutOfFuel"
| "rename_assignments (Suc n) code from to (phi_from, s) =
     bindE (deref (code_heap s) code) (\<lambda>c.
     if visited c then Inr (phi_from, s) else
     bindE (upd_code code (\<lambda>y. y\<lparr>visited := True\<rparr>) s) (\<lambda>s1.
     bindE (foldE (rename_insn from) (insns c) (to, phi_from, s1)) (\<lambda>(to', phi', s2).
     bindE (deref (code_heap s2) code) (\<lambda>c2.
     bindE (case to' of
              None \<Rightarrow> Inr s2
            | Some t \<Rightarrow> foldE (\<lambda>sc. replace_phi_vars code sc phi' t) (succ c2) s2) (\<lambda>s3.
     foldE (\<lambda>sc st'. rename_assignments n sc from to' st') (succ c2) (phi', s3))))))"

section \<open>The optimizer\<close>

text \<open>
  \<^verbatim>\<open>opt_unused_vars\<close>. The inner walk reads the next variable before it deletes the
  current one; the outer \<^verbatim>\<open>do ... while (loop)\<close> takes one unit of fuel per round.
\<close>

definition unused_var_step :: "var_ptr \<Rightarrow> bool \<times> ir_func \<Rightarrow> (bool \<times> ir_func) result" where
  "unused_var_step v st =
     (case st of (loop, s) \<Rightarrow>
     bindE (deref (var_heap s) v) (\<lambda>x.
       if length (used_at x) = 0
       then bindE (ir_var_delete v s) (\<lambda>s1. Inr (True, s1))
       else Inr (loop, s)))"

fun opt_unused_vars_loop :: "nat \<Rightarrow> bool \<Rightarrow> ir_func \<Rightarrow> (bool \<times> ir_func) result" where
  "opt_unused_vars_loop 0 deleted s = Inl OutOfFuel"
| "opt_unused_vars_loop (Suc n) deleted s =
     bindE (foldE unused_var_step (vars_list s) (False, s)) (\<lambda>(loop, s1).
     if loop then opt_unused_vars_loop n True s1 else Inr (deleted, s1))"

definition opt_unused_vars :: "nat \<Rightarrow> ir_func \<Rightarrow> (bool \<times> ir_func) result" where
  "opt_unused_vars fuel s = opt_unused_vars_loop fuel False s"

text \<open>
  The constant evaluator of \<^verbatim>\<open>ir/interp.h\<close> is not under src; the optimizer takes its
  three functions as a parameter.
\<close>

record interp =
  ir_cast :: "ir_prim \<Rightarrow> ir_const \<Rightarrow> ir_const"
  ir_calc1 :: "ir_op1_type \<Rightarrow> ir_const \<Rightarrow> ir_const"
  ir_calc2 :: "ir_op2_type \<Rightarrow> ir_const \<Rightarrow> ir_const \<Rightarrow> ir_const"

text \<open>\<^verbatim>\<open>const_prop_expr\<close>\<close>

definition const_prop_expr :: "interp \<Rightarrow> insn_ptr \<Rightarrow> ir_func \<Rightarrow> (bool \<times> ir_func) result" where
  "const_prop_expr ip e s =
     bindE (deref (insn_heap s) e) (\<lambda>i.
       case i of
         Expr p d (E_unary oper (Op_const k)) \<Rightarrow>
           bindE (if oper = IR_OP1_MOV
                  then bindE (deref (var_heap s) d) (\<lambda>x. Inr (ir_cast ip (var_prim_type x) k))
                  else Inr (ir_calc1 ip oper k)) (\<lambda>iconst.
           bindE (ir_var_replace d (Op_const iconst) s) (\<lambda>s1.
           bindE (ir_var_delete d s1) (\<lambda>s2. Inr (True, s2))))
       | Expr p d (E_binary oper (Op_const a) (Op_const b)) \<Rightarrow>
           bindE (ir_var_replace d (Op_const (ir_calc2 ip oper a b)) s) (\<lambda>s1.
           bindE (ir_var_delete d s1) (\<lambda>s2. Inr (True, s2)))
       | _ \<Rightarrow> Inr (False, s))"

text \<open>\<^verbatim>\<open>opt_const_prop\<close>\<close>

definition const_prop_step :: "interp \<Rightarrow> var_ptr \<Rightarrow> bool \<times> bool \<times> ir_func \<Rightarrow> (bool \<times> bool \<times> ir_func) result" where
  "const_prop_step ip v st =
     (case st of (loop, propagated, s) \<Rightarrow>
     bindE (deref (var_heap s) v) (\<lambda>x.
       if length (assigned_at x) \<noteq> 1 then Inr (loop, propagated, s)
       else bindE (const_prop_expr ip (hd (assigned_at x)) s) (\<lambda>(r, s1).
            Inr (loop \<or> r, propagated \<or> loop \<or> r, s1))))"

fun opt_const_prop_loop :: "interp \<Rightarrow> nat \<Rightarrow> bool \<Rightarrow> ir_func \<Rightarrow> (bool \<times> ir_func) result" where
  "opt_const_prop_loop ip 0 propagated s = Inl OutOfFuel"
| "opt_const_prop_loop ip (Suc n) propagated s =
     bindE (foldE (const_prop_step ip) (vars_list s) (False, propagated, s)) (\<lambda>(loop, propagated', s1).
     if loop then opt_const_prop_loop ip n propagated' s1 else Inr (propagated', s1))"

definition opt_const_prop :: "interp \<Rightarrow> nat \<Rightarrow> ir_func \<Rightarrow> (bool \<times> ir_func) result" where
  "opt_const_prop ip fuel s = opt_const_prop_loop ip fuel False s"

text \<open>
  The body of the instruction walk of \<^verbatim>\<open>dead_code_dfs\<close>, on the flags \<open>dead\<close> and
  \<open>changed\<close> and the function; \<open>rec\<close> is the recursive call. Deleting a branch whose
  condition is the constant false leaves \<open>changed\<close> as it is.
\<close>

definition dead_code_insn :: "(code_ptr \<Rightarrow> ir_func \<Rightarrow> (bool \<times> ir_func) result) \<Rightarrow> insn_ptr \<Rightarrow> bool \<times> bool \<times> ir_func \<Rightarrow> (bool \<times> bool \<times> ir_func) result" where
  "dead_code_insn rec insn st =
     (case st of (dead, changed, s) \<Rightarrow>
     if dead then bindE (ir_insn_delete insn s) (\<lambda>s1. Inr (dead, True, s1))
     else bindE (deref (insn_heap s) insn) (\<lambda>i.
       case i of
         Expr p d ex \<Rightarrow> Inr (dead, changed, s)
       | Flow p fl \<Rightarrow>
           (case fl of
              F_jump target \<Rightarrow>
                bindE (rec target s) (\<lambda>(r, s1). Inr (True, changed \<or> r, s1))
            | F_return val \<Rightarrow> Inr (True, changed, s)
            | F_branch cond target \<Rightarrow>
                (case cond of
                   Op_const k \<Rightarrow>
                     if constl k AND 1 \<noteq> 0
                     then bindE (rec target s) (\<lambda>(r, s1). Inr (True, changed \<or> r, s1))
                     else bindE (ir_insn_delete insn s) (\<lambda>s1. Inr (dead, changed, s1))
                 | Op_var v \<Rightarrow>
                     bindE (rec target s) (\<lambda>(r, s1). Inr (dead, changed \<or> r, s1)))
            | _ \<Rightarrow> Inr (dead, changed, s))))"

text \<open>\<^verbatim>\<open>dead_code_dfs\<close>; the fuel bounds the depth of the recursion.\<close>

fun dead_code_dfs :: "nat \<Rightarrow> code_ptr \<Rightarrow> ir_func \<Rightarrow> (bool \<times> ir_func) result" where
  "dead_code_dfs 0 code s = Inl OutOfFuel"
| "dead_code_dfs (Suc n) code s =
     bindE (deref (code_heap s) code) (\<lambda>c.
     if visited c then Inr (False, s) else
     bindE (upd_code code (\<lambda>y. y\<lparr>visited := True\<rparr>) s) (\<lambda>s1.
     bindE (foldE (dead_code_insn (\<lambda>t s'. dead_code_dfs n t s')) (insns c) (False, False, s1))
       (\<lambda>(dead, changed, s2). Inr (changed, s2))))"

text \<open>\<^verbatim>\<open>container_of(func->code_list.head, ir_code_t, node)\<close>: \<^verbatim>\<open>NULL\<close> for an empty list.\<close>

definition code_list_head :: "ir_func \<Rightarrow> code_ptr result" where
  "code_list_head s = (case code_list s of [] \<Rightarrow> Inl BadPointer | c # cs \<Rightarrow> Inr c)"

definition clear_visited :: "ir_func \<Rightarrow> ir_func result" where
  "clear_visited s = foldE (\<lambda>c. upd_code c (\<lambda>y. y\<lparr>visited := False\<rparr>)) (code_list s) s"

definition delete_unvisited :: "code_ptr \<Rightarrow> ir_func \<Rightarrow> ir_func result" where
  "delete_unvisited code s =
     bindE (deref (code_heap s) code) (\<lambda>c.
       if \<not> visited c then ir_code_delete code s else Inr s)"

text \<open>
  \<^verbatim>\<open>opt_dead_code\<close>: \<open>loop\<close> is the result of \<^verbatim>\<open>dead_code_dfs\<close> alone; deleting the
  blocks that were not visited does not enter it.
\<close>

fun opt_dead_code_loop :: "nat \<Rightarrow> bool \<Rightarrow> ir_func \<Rightarrow> (bool \<times> ir_func) result" where
  "opt_dead_code_loop 0 changed s = Inl OutOfFuel"
| "opt_dead_code_loop (Suc n) changed s =
     bindE (clear_visited s) (\<lambda>s1.
     bindE (code_list_head s1) (\<lambda>h.
     bindE (dead_code_dfs n h s1) (\<lambda>(loop, s2).
     bindE (foldE delete_unvisited (code_list s2) s2) (\<lambda>s3.
     bindE (ir_func_recalc_flow s3) (\<lambda>s4.
     if loop then opt_dead_code_loop n (changed \<or> loop) s4
     else Inr (changed \<or> loop, s4))))))"

definition opt_dead_code :: "nat \<Rightarrow> ir_func \<Rightarrow> (bool \<times> ir_func) result" where
  "opt_dead_code fuel s = opt_dead_code_loop fuel False s"

text \<open>
  \<^verbatim>\<open>merge_code\<close>. \<^verbatim>\<open>dlist_concat\<close> moves the instructions of the second list to
  the end of the first.
\<close>

definition merge_code :: "code_ptr \<Rightarrow> code_ptr \<Rightarrow> ir_func \<Rightarrow> ir_func result" where
  "merge_code first second s =
     bindE (deref (code_heap s) first) (\<lambda>c1.
     bindE (case insns c1 of [] \<Rightarrow> Inl BadPointer | x # xs \<Rightarrow> ir_insn_delete (last (insns c1)) s) (\<lambda>s1.
     bindE (deref (code_heap s1) second) (\<lambda>c2.
     bindE (foldE (\<lambda>insn. upd_insn insn
                     (\<lambda>j. case j of Expr p d ex \<Rightarrow> Expr first d ex | Flow p fl \<Rightarrow> Flow first fl))
              (insns c2) s1) (\<lambda>s2.
     bindE (upd_code first (\<lambda>y. y\<lparr>insns := insns y @ insns c2\<rparr>) s2) (\<lambda>s3.
     bindE (upd_code second (\<lambda>y. y\<lparr>insns := []\<rparr>) s3) (\<lambda>s4.
     bindE (foldE (\<lambda>sc. upd_code sc
                     (\<lambda>y. y\<lparr>pred := set_add (set_remove (pred y) second) first\<rparr>))
              (succ c2) s4) (\<lambda>s5.
     bindE (upd_code first (\<lambda>y. y\<lparr>succ := []\<rparr>) s5) (\<lambda>s6.
     bindE (upd_code second (\<lambda>y. y\<lparr>pred := []\<rparr>) s6) (\<lambda>s7.
     bindE (deref (code_heap s7) second) (\<lambda>c2'.
     bindE (upd_code first (\<lambda>y. y\<lparr>succ := succ c2'\<rparr>) s7) (\<lambda>s8.
     bindE (upd_code second (\<lambda>y. y\<lparr>succ := []\<rparr>) s8) (\<lambda>s9.
     ir_code_delete second s9))))))))))))"

text \<open>
  The \<^verbatim>\<open>while (code->succ.len == 1)\<close> loop of \<^verbatim>\<open>branch_opt_dfs\<close>, one unit of
  fuel per round. When the only successor has a number of predecessors other than one,
  the body changes nothing and the loop goes round again.
\<close>

fun branch_merge_loop :: "nat \<Rightarrow> code_ptr \<Rightarrow> bool \<Rightarrow> ir_func \<Rightarrow> (bool \<times> ir_func) result" where
  "branch_merge_loop 0 code changed s = Inl OutOfFuel"
| "branch_merge_loop (Suc n) code changed s =
     bindE (deref (code_heap s) code) (\<lambda>c.
     if length (succ c) = 1
     then bindE (deref (code_heap s) (hd (succ c))) (\<lambda>sc.
          if length (pred sc) = 1
          then bindE (merge_code code (hd (succ c)) s) (\<lambda>s1. branch_merge_loop n code True s1)
          else branch_merge_loop n code changed s)
     else Inr (changed, s))"

text \<open>\<^verbatim>\<open>branch_opt_dfs\<close>; the fuel bounds the depth of the recursion and the rounds of
  the loop.\<close>

fun branch_opt_dfs :: "nat \<Rightarrow> code_ptr \<Rightarrow> ir_func \<Rightarrow> (bool \<times> ir_func) result" where
  "branch_opt_dfs 0 code s = Inl OutOfFuel"
| "branch_opt_dfs (Suc n) code s =
     bindE (deref (code_heap s) code) (\<lambda>c.
     if visited c then Inr (False, s) else
     bindE (upd_code code (\<lambda>y. y\<lparr>visited := True\<rparr>) s) (\<lambda>s1.
     bindE (branch_merge_loop n code False s1) (\<lambda>(changed, s2).
     bindE (deref (code_heap s2) code) (\<lambda>c2.
     foldE (\<lambda>sc st. case st of (ch, s') \<Rightarrow>
              bindE (branch_opt_dfs n sc s') (\<lambda>(r, s''). Inr (ch \<or> r, s'')))
       (succ c2) (changed, s2)))))"

text \<open>\<^verbatim>\<open>opt_branches\<close>\<close>

definition opt_branches :: "nat \<Rightarrow> ir_func \<Rightarrow> (bool \<times> ir_func) result" where
  "opt_branches fuel s =
     bindE (clear_visited s) (\<lambda>s1.
     bindE (code_list_head s1) (\<lambda>h. branch_opt_dfs fuel h s1))"

text \<open>\<^verbatim>\<open>optimize\<close>: the four passes, again while one of them reports a change.\<close>

fun optimize_loop :: "interp \<Rightarrow> nat \<Rightarrow> bool \<Rightarrow> ir_func \<Rightarrow> (bool \<times> ir_func) result" where
  "optimize_loop ip 0 changed s = Inl OutOfFuel"
| "optimize_loop ip (Suc n) changed s =
     bindE (opt_unused_vars n s) (\<lambda>(l1, s1).
     bindE (opt_const_prop ip n s1) (\<lambda>(l2, s2).
     bindE (opt_dead_code n s2) (\<lambda>(l3, s3).
     bindE (opt_branches n s3) (\<lambda>(l4, s4).
     let loop = (l1 \<or> l2 \<or> l3 \<or> l4) in
     if loop then optimize_loop ip n (changed \<or> loop) s4
     else Inr (changed \<or> loop, s4)))))"

definition optimize :: "interp \<Rightarrow> nat \<Rightarrow> ir_func \<Rightarrow> (bool \<times> ir_func) result" where
  "optimize ip fuel s = optimize_loop ip fuel False s"


section \<open>The serializer\<close>

text \<open>
  Modelled from the spec: the table \<^verbatim>\<open>ir_prim_sizes\<close>, declared in
  \<^verbatim>\<open>ir_types.h\<close> and defined outside src. Section 3 of the specification lists the
  byte sizes 1, 1, 2, 2, 4, 4, 8, 8, 16, 16, 1, 4, 8 in the order of the enumeration.
\<close>

fun ir_prim_sizes :: "ir_prim \<Rightarrow> nat" where
  "ir_prim_sizes IR_PRIM_S8 = 1"
| "ir_prim_sizes IR_PRIM_U8 = 1"
| "ir_prim_sizes IR_PRIM_S16 = 2"
| "ir_prim_sizes IR_PRIM_U16 = 2"
| "ir_prim_sizes IR_PRIM_S32 = 4"
| "ir_prim_sizes IR_PRIM_U32 = 4"
| "ir_prim_sizes IR_PRIM_S64 = 8"
| "ir_prim_sizes IR_PRIM_U64 = 8"
| "ir_prim_sizes IR_PRIM_S128 = 16"
| "ir_prim_sizes IR_PRIM_U128 = 16"
| "ir_prim_sizes IR_PRIM_BOOL = 1"
| "ir_prim_sizes IR_PRIM_F32 = 4"
| "ir_prim_sizes IR_PRIM_F64 = 8"

datatype ir_flow_type =
    IR_FLOW_JUMP | IR_FLOW_BRANCH | IR_FLOW_CALL_DIRECT | IR_FLOW_CALL_PTR | IR_FLOW_RETURN

fun flow_type :: "ir_flow \<Rightarrow> ir_flow_type" where
  "flow_type (F_jump t) = IR_FLOW_JUMP"
| "flow_type (F_branch c t) = IR_FLOW_BRANCH"
| "flow_type (F_call_direct as l) = IR_FLOW_CALL_DIRECT"
| "flow_type (F_call_ptr as a) = IR_FLOW_CALL_PTR"
| "flow_type (F_return v) = IR_FLOW_RETURN"

text \<open>
  The name tables \<^verbatim>\<open>ir_prim_names\<close>, \<^verbatim>\<open>ir_op1_names\<close>, \<^verbatim>\<open>ir_op2_names\<close> and
  \<^verbatim>\<open>ir_flow_names\<close> are defined outside src, and the text \<^verbatim>\<open>printf\<close> prints for a
  floating-point value is not modelled: the serializer takes them as a parameter.
  \<open>fmt_f\<close> and \<open>fmt_lf\<close> give the text of \<^verbatim>\<open>%f\<close> and \<^verbatim>\<open>%lf\<close> for the value read
  from the constant.
\<close>

record tables =
  ir_prim_names :: "ir_prim \<Rightarrow> string"
  ir_op1_names :: "ir_op1_type \<Rightarrow> string"
  ir_op2_names :: "ir_op2_type \<Rightarrow> string"
  ir_flow_names :: "ir_flow_type \<Rightarrow> string"
  fmt_f :: "ir_const \<Rightarrow> string"
  fmt_lf :: "ir_const \<Rightarrow> string"

text \<open>The upper-case hexadecimal digits of a number, without leading zeros (\<^verbatim>\<open>%lX\<close>).\<close>

fun hex_digits :: "nat \<Rightarrow> string" where
  "hex_digits n =
     (if n < 16 then [''0123456789ABCDEF'' ! n]
      else hex_digits (n div 16) @ [''0123456789ABCDEF'' ! (n mod 16)])"

declare hex_digits.simps [simp del]

text \<open>
  \<^verbatim>\<open>"%0*" PRIX64\<close> with the width \<open>w\<close>: the digits, padded with zeros on the left to
  at least \<open>w\<close> characters.
\<close>

definition fmt_0X :: "nat \<Rightarrow> 64 word \<Rightarrow> string" where
  "fmt_0X w x = replicate (w - length (hex_digits (unat x))) (CHR ''0'') @ hex_digits (unat x)"

text \<open>\<^verbatim>\<open>ir_operand_serialize\<close>: the text written to the file.\<close>

definition ir_operand_serialize :: "tables \<Rightarrow> ir_operand \<Rightarrow> ir_func \<Rightarrow> string result" where
  "ir_operand_serialize tb operand s =
     (case operand of
        Op_const k \<Rightarrow>
          if prim_type k = IR_PRIM_BOOL
          then Inr (if constl k \<noteq> 0 then ''true'' else ''false'')
          else Inr (ir_prim_names tb (prim_type k) @ [CHR 0x27] @ ''0x'' @
                 (let size = ir_prim_sizes (prim_type k)
                  in if size = 16 then fmt_0X 16 (consth k) @ fmt_0X 16 (constl k)
                     else fmt_0X (size * 2) (constl k)) @
                 (if prim_type k = IR_PRIM_F32 then '' /* '' @ fmt_f tb k @ '' */''
                  else if prim_type k = IR_PRIM_F64 then '' /* '' @ fmt_lf tb k @ '' */''
                  else []))
      | Op_var v \<Rightarrow> bindE (deref (var_heap s) v) (\<lambda>x. Inr (CHR ''%'' # var_name x)))"

text \<open>The texts of a list of items, one after the other.\<close>

definition concatE :: "('a \<Rightarrow> string result) \<Rightarrow> 'a list \<Rightarrow> string result" where
  "concatE f xs = foldE (\<lambda>x acc. bindE (f x) (\<lambda>str. Inr (acc @ str))) xs []"

definition var_name_of :: "ir_func \<Rightarrow> var_ptr \<Rightarrow> string result" where
  "var_name_of s v = bindE (deref (var_heap s) v) (\<lambda>x. Inr (var_name x))"

definition code_name_of :: "ir_func \<Rightarrow> code_ptr \<Rightarrow> string result" where
  "code_name_of s c = bindE (deref (code_heap s) c) (\<lambda>x. Inr (code_name x))"

text \<open>The line \<^verbatim>\<open>ir_func_serialize\<close> writes for one instruction.\<close>

definition ir_insn_serialize :: "tables \<Rightarrow> ir_func \<Rightarrow> insn_ptr \<Rightarrow> string result" where
  "ir_insn_serialize tb s insn =
     bindE (deref (insn_heap s) insn) (\<lambda>i.
       case i of
         Expr p d ex \<Rightarrow>
           bindE (var_name_of s d) (\<lambda>dn.
             case ex of
               E_combinator from \<Rightarrow>
                 bindE (concatE (\<lambda>c.
                          bindE (code_name_of s (prev c)) (\<lambda>pn.
                          bindE (ir_operand_serialize tb (bind c) s) (\<lambda>b.
                          Inr ('', <'' @ pn @ ''> '' @ b)))) from) (\<lambda>es.
                 Inr (''    phi %'' @ dn @ es @ [CHR 0x0A]))
             | E_unary oper v \<Rightarrow>
                 bindE (ir_operand_serialize tb v s) (\<lambda>a.
                 Inr (''    '' @ ir_op1_names tb oper @ '' %'' @ dn @ '', '' @ a @ [CHR 0x0A]))
             | E_binary oper lhs rhs \<Rightarrow>
                 bindE (ir_operand_serialize tb lhs s) (\<lambda>a.
                 bindE (ir_operand_serialize tb rhs s) (\<lambda>b.
                 Inr (''    '' @ ir_op2_names tb oper @ '' %'' @ dn @ '', '' @ a @ '', '' @ b
                        @ [CHR 0x0A])))
             | E_undefined \<Rightarrow> Inr (''    undef %'' @ dn @ [CHR 0x0A]))
       | Flow p fl \<Rightarrow>
           bindE
             (case fl of
                F_jump target \<Rightarrow>
                  bindE (code_name_of s target) (\<lambda>tn. Inr ('' <'' @ tn @ ''>''))
              | F_branch cond target \<Rightarrow>
                  bindE (ir_operand_serialize tb cond s) (\<lambda>c.
                  bindE (code_name_of s target) (\<lambda>tn. Inr ('' '' @ c @ '', <'' @ tn @ ''>'')))
              | F_call_direct as label \<Rightarrow>
                  bindE (concatE (\<lambda>a. bindE (ir_operand_serialize tb a s) (\<lambda>x. Inr ('', '' @ x))) as)
                    (\<lambda>xs. Inr ('' <'' @ label @ ''>'' @ xs))
              | F_call_ptr as addr \<Rightarrow>
                  bindE (ir_operand_serialize tb addr s) (\<lambda>a.
                  bindE (concatE (\<lambda>a. bindE (ir_operand_serialize tb a s) (\<lambda>x. Inr ('', '' @ x))) as)
                    (\<lambda>xs. Inr ('' '' @ a @ xs)))
              | F_return val \<Rightarrow>
                  (case val of
                     None \<Rightarrow> Inr []
                   | Some v \<Rightarrow> bindE (ir_operand_serialize tb v s) (\<lambda>x. Inr ('' '' @ x))))
             (\<lambda>rest. Inr (''    '' @ ir_flow_names tb (flow_type fl) @ rest @ [CHR 0x0A])))"

text \<open>
  \<^verbatim>\<open>ir_func_serialize\<close>: the header, one line per variable of \<^verbatim>\<open>vars_list\<close>, one
  line per element of \<^verbatim>\<open>func->args\<close> (read through the stored pointer), then the
  code blocks.
\<close>

definition ir_func_serialize :: "tables \<Rightarrow> ir_func \<Rightarrow> string result" where
  "ir_func_serialize tb s =
     bindE (concatE (\<lambda>v. bindE (deref (var_heap s) v) (\<lambda>x.
              Inr (''    var '' @ ir_prim_names tb (var_prim_type x) @ '' %'' @ var_name x
                     @ [CHR 0x0A]))) (vars_list s)) (\<lambda>vars.
     bindE (concatE (\<lambda>v. bindE (var_name_of s v) (\<lambda>n.
              Inr (''    arg %'' @ n @ [CHR 0x0A]))) (args s)) (\<lambda>as.
     bindE (concatE (\<lambda>c. bindE (deref (code_heap s) c) (\<lambda>x.
              bindE (concatE (ir_insn_serialize tb s) (insns x)) (\<lambda>body.
              Inr (''code <'' @ code_name x @ ''>'' @ [CHR 0x0A] @ body)))) (code_list s)) (\<lambda>codes.
     Inr ((if enforce_ssa s then ''ssa '' else []) @ ''function %'' @ func_name s @ [CHR 0x0A]
            @ vars @ as @ codes))))"


section \<open>Operand positions and use sets\<close>

text \<open>
  The operands of an instruction, position by position: the binds of a combinator, the
  operands of a unary or binary expression, the condition of a branch, the address and the
  arguments of a call, the value of a return.
\<close>

fun insn_operands :: "ir_insn \<Rightarrow> ir_operand list" where
  "insn_operands (Expr p d (E_combinator from)) = map bind from"
| "insn_operands (Expr p d (E_unary oper v)) = [v]"
| "insn_operands (Expr p d (E_binary oper lhs rhs)) = [lhs, rhs]"
| "insn_operands (Expr p d E_undefined) = []"
| "insn_operands (Flow p (F_jump t)) = []"
| "insn_operands (Flow p (F_branch c t)) = [c]"
| "insn_operands (Flow p (F_call_direct as l)) = as"
| "insn_operands (Flow p (F_call_ptr as a)) = a # as"
| "insn_operands (Flow p (F_return v)) = (case v of None \<Rightarrow> [] | Some x \<Rightarrow> [x])"

text \<open>The instruction at \<open>i\<close> names the variable \<open>v\<close> in some operand position.\<close>

definition references :: "ir_func \<Rightarrow> insn_ptr \<Rightarrow> var_ptr \<Rightarrow> bool" where
  "references s i v =
     (case insn_heap s i of None \<Rightarrow> False | Some x \<Rightarrow> Op_var v \<in> set (insn_operands x))"

text \<open>The instruction \<open>i\<close> is a member of \<^verbatim>\<open>v->used_at\<close>.\<close>

definition in_use_set :: "ir_func \<Rightarrow> var_ptr \<Rightarrow> insn_ptr \<Rightarrow> bool" where
  "in_use_set s v i = (case var_heap s v of None \<Rightarrow> False | Some x \<Rightarrow> i \<in> set (used_at x))"

section \<open>Example functions\<close>

text \<open>
  A function \<^verbatim>\<open>f\<close> without parameters, its entry block at address 1, and the two
  32-bit variables \<^verbatim>\<open>v\<close> (address 2) and \<^verbatim>\<open>w\<close> (address 3).
\<close>

definition two_vars :: ir_func where
  "two_vars =
     snd (ir_var_create IR_PRIM_S32 (Some ''w'')
       (snd (ir_var_create IR_PRIM_S32 (Some ''v'')
          (ir_func_create ''f'' (Some ''entry'') []))))"

text \<open>The same with the single 64-bit variable \<^verbatim>\<open>fp\<close> (address 2).\<close>

definition one_var :: ir_func where
  "one_var =
     snd (ir_var_create IR_PRIM_U64 (Some ''fp'') (ir_func_create ''f'' (Some ''entry'') []))"

text \<open>
  A function whose entry block (address 1) ends in a jump (address 3) to the block
  \<^verbatim>\<open>L\<close> (address 2).
\<close>

definition jump_example :: ir_func where
  "jump_example =
     projr (ir_add_jump 1 2
       (snd (ir_code_create (Some ''L'') (ir_func_create ''f'' (Some ''entry'') []))))"

text \<open>
  Name tables for the examples: the names the serialized form of section 4.2 and the
  scenarios of section 8 of the specification use, and an empty text for a floating-point
  value.
\<close>

definition example_tables :: tables where
  "example_tables =
     \<lparr>ir_prim_names = (\<lambda>p. case p of
          IR_PRIM_S8 \<Rightarrow> ''s8'' | IR_PRIM_U8 \<Rightarrow> ''u8'' | IR_PRIM_S16 \<Rightarrow> ''s16''
        | IR_PRIM_U16 \<Rightarrow> ''u16'' | IR_PRIM_S32 \<Rightarrow> ''s32'' | IR_PRIM_U32 \<Rightarrow> ''u32''
        | IR_PRIM_S64 \<Rightarrow> ''s64'' | IR_PRIM_U64 \<Rightarrow> ''u64'' | IR_PRIM_S128 \<Rightarrow> ''s128''
        | IR_PRIM_U128 \<Rightarrow> ''u128'' | IR_PRIM_BOOL \<Rightarrow> ''bool'' | IR_PRIM_F32 \<Rightarrow> ''f32''
        | IR_PRIM_F64 \<Rightarrow> ''f64''),
      ir_op1_names = (\<lambda>oper. case oper of
          IR_OP1_MOV \<Rightarrow> ''mov'' | IR_OP1_SEQZ \<Rightarrow> ''seqz'' | IR_OP1_SNEZ \<Rightarrow> ''snez''
        | IR_OP1_NEG \<Rightarrow> ''neg'' | IR_OP1_BNEG \<Rightarrow> ''bneg'' | IR_OP1_LNOT \<Rightarrow> ''lnot''),
      ir_op2_names = (\<lambda>oper. case oper of
          IR_OP2_SGT \<Rightarrow> ''sgt'' | IR_OP2_SLE \<Rightarrow> ''sle'' | IR_OP2_SLT \<Rightarrow> ''slt''
        | IR_OP2_SGE \<Rightarrow> ''sge'' | IR_OP2_SEQ \<Rightarrow> ''seq'' | IR_OP2_SNE \<Rightarrow> ''sne''
        | IR_OP2_SCS \<Rightarrow> ''scs'' | IR_OP2_SCC \<Rightarrow> ''scc'' | IR_OP2_ADD \<Rightarrow> ''add''
        | IR_OP2_SUB \<Rightarrow> ''sub'' | IR_OP2_MUL \<Rightarrow> ''mul'' | IR_OP2_DIV \<Rightarrow> ''div''
        | IR_OP2_MOD \<Rightarrow> ''mod'' | IR_OP2_SHL \<Rightarrow> ''shl'' | IR_OP2_SHR \<Rightarrow> ''shr''
        | IR_OP2_BAND \<Rightarrow> ''band'' | IR_OP2_BOR \<Rightarrow> ''bor'' | IR_OP2_BXOR \<Rightarrow> ''bxor''
        | IR_OP2_LAND \<Rightarrow> ''land'' | IR_OP2_LOR \<Rightarrow> ''lor''),
      ir_flow_names = (\<lambda>ft. case ft of
          IR_FLOW_JUMP \<Rightarrow> ''jump'' | IR_FLOW_BRANCH \<Rightarrow> ''branch''
        | IR_FLOW_CALL_DIRECT \<Rightarrow> ''call.direct'' | IR_FLOW_CALL_PTR \<Rightarrow> ''call.ptr''
        | IR_FLOW_RETURN \<Rightarrow> ''return''),
      fmt_f = (\<lambda>k. []),
      fmt_lf = (\<lambda>k. [])\<rparr>"

section \<open>Reading hexadecimal text\<close>

text \<open>
  The value of a text of upper-case hexadecimal digits, to state what the digits the
  serializer prints represent.
\<close>

definition hex_digit_val :: "char \<Rightarrow> nat" where
  "hex_digit_val c = length (takeWhile (\<lambda>d. d \<noteq> c) ''0123456789ABCDEF'')"

definition hex_val :: "string \<Rightarrow> nat" where
  "hex_val str = foldl (\<lambda>acc c. 16 * acc + hex_digit_val c) 0 str"

definition is_hex_digit :: "char \<Rightarrow> bool" where
  "is_hex_digit c = (c \<in> set ''0123456789ABCDEF'')"

section \<open>The edges of the control flow graph\<close>

text \<open>The target of the jump at \<open>i\<close>, if the instruction at \<open>i\<close> is a jump.\<close>

definition edge_of :: "ir_func \<Rightarrow> insn_ptr \<Rightarrow> code_ptr option" where
  "edge_of s i =
     (case insn_heap s i of
        Some (Flow p (F_jump target)) \<Rightarrow> Some target
      | _ \<Rightarrow> None)"

text \<open>The instruction at \<open>i\<close> is a branch.\<close>

definition is_branch_at :: "ir_func \<Rightarrow> insn_ptr \<Rightarrow> bool" where
  "is_branch_at s i =
     (case insn_heap s i of
        Some (Flow p (F_branch cond target)) \<Rightarrow> True
      | _ \<Rightarrow> False)"

text \<open>The targets of the jumps of a block, in the order of its instructions.\<close>

definition targets_of :: "ir_func \<Rightarrow> code_ptr \<Rightarrow> code_ptr list" where
  "targets_of s c =
     (case code_heap s c of None \<Rightarrow> [] | Some x \<Rightarrow> List.map_filter (edge_of s) (insns x))"

text \<open>
  Every block of \<^verbatim>\<open>code_list\<close> exists, its instructions exist, none of them is a
  branch, and its jumps lead to blocks of \<^verbatim>\<open>code_list\<close>.
\<close>

definition flow_wf :: "ir_func \<Rightarrow> bool" where
  "flow_wf s =
     (\<forall>c \<in> set (code_list s).
        \<exists>x. code_heap s c = Some x
           \<and> (\<forall>i \<in> set (insns x). insn_heap s i \<noteq> None \<and> \<not> is_branch_at s i)
           \<and> set (targets_of s c) \<subseteq> set (code_list s))"

text \<open>A block with its two edge sets emptied.\<close>

definition no_flow :: "ir_code \<Rightarrow> ir_code" where
  "no_flow x = x\<lparr>pred := [], succ := []\<rparr>"

text \<open>Two functions that differ at most in the predecessor and successor sets of their
  blocks.\<close>

definition same_but_flow :: "ir_func \<Rightarrow> ir_func \<Rightarrow> bool" where
  "same_but_flow s s' =
     (s'\<lparr>code_heap := (\<lambda>c. None)\<rparr> = s\<lparr>code_heap := (\<lambda>c. None)\<rparr>
      \<and> (\<forall>c. map_option no_flow (code_heap s' c) = map_option no_flow (code_heap s c)))"

text \<open>The successor set of a block, as a set.\<close>

definition succs :: "ir_func \<Rightarrow> code_ptr \<Rightarrow> code_ptr set" where
  "succs s c = (case code_heap s c of None \<Rightarrow> {} | Some x \<Rightarrow> set (succ x))"

text \<open>The predecessor set of a block, as a set.\<close>

definition preds :: "ir_func \<Rightarrow> code_ptr \<Rightarrow> code_ptr set" where
  "preds s c = (case code_heap s c of None \<Rightarrow> {} | Some x \<Rightarrow> set (pred x))"

text \<open>The block exists, its instructions exist, none of them is a branch, and the
  targets of its jumps exist.\<close>

definition code_ok :: "ir_func \<Rightarrow> code_ptr \<Rightarrow> bool" where
  "code_ok s c =
     (\<exists>x. code_heap s c = Some x
         \<and> (\<forall>i\<in>set (insns x). insn_heap s i \<noteq> None \<and> \<not> is_branch_at s i
               \<and> (\<forall>t. edge_of s i = Some t \<longrightarrow> code_heap s t \<noteq> None)))"

text \<open>
  A function with the blocks \<^verbatim>\<open>entry\<close> (address 1), \<^verbatim>\<open>L\<close> (2) and \<^verbatim>\<open>M\<close> (3). The
  entry block gets a branch to \<^verbatim>\<open>L\<close> (address 4) and a jump to \<^verbatim>\<open>M\<close> (address 5);
  then the branch is deleted, which leaves the edge from \<^verbatim>\<open>entry\<close> to \<^verbatim>\<open>L\<close> in the
  sets.
\<close>

definition stale_example :: ir_func where
  "stale_example =
     projr (bindE (bindE
       (ir_add_branch 1 (Op_const (Ir_const IR_PRIM_BOOL 1 0)) 2
          (snd (ir_code_create (Some ''M'')
             (snd (ir_code_create (Some ''L'') (ir_func_create ''f'' (Some ''entry'') []))))))
       (ir_add_jump 1 3)) (ir_insn_delete 4))"



section \<open>Example functions for the optimizer and the renaming walk\<close>

text \<open>
  The loop \<^verbatim>\<open>for (;;);\<close>: the entry block (address 1) jumps to the block \<^verbatim>\<open>L\<close>
  (address 2), which jumps to itself. \<^verbatim>\<open>L\<close> is the only successor of the entry block
  and has two predecessors.
\<close>

definition loop_example :: ir_func where
  "loop_example =
     projr (bindE
       (ir_add_jump 1 2
          (snd (ir_code_create (Some ''L'') (ir_func_create ''f'' (Some ''entry'') []))))
       (ir_add_jump 2 2))"

text \<open>
  The situation in which the loop of \<^verbatim>\<open>branch_opt_dfs\<close> has nothing to do and does
  not end: the block has exactly one successor, and the number of predecessors of that
  successor is not one.
\<close>

definition stuck :: "ir_func \<Rightarrow> code_ptr \<Rightarrow> bool" where
  "stuck s code =
     (case code_heap s code of
        None \<Rightarrow> False
      | Some c \<Rightarrow>
          length (succ c) = 1
          \<and> (case code_heap s (hd (succ c)) of
                None \<Rightarrow> False
              | Some sc \<Rightarrow> length (pred sc) \<noteq> 1))"

text \<open>The edges of \<open>loop_example\<close> that matter to \<^verbatim>\<open>opt_branches\<close>.\<close>

definition loop_shape :: "ir_func \<Rightarrow> bool" where
  "loop_shape s =
     (code_list s = [1, 2]
      \<and> map_option succ (code_heap s 1) = Some [2]
      \<and> map_option pred (code_heap s 2) = Some [1, 2])"

text \<open>
  A function with the blocks \<^verbatim>\<open>entry\<close> (address 1) and \<^verbatim>\<open>A\<close> (address 2). The
  entry block is \<^verbatim>\<open>branch false, <A>\<close> (address 3) and \<^verbatim>\<open>A\<close> is \<^verbatim>\<open>return\<close>
  (address 4).
\<close>

definition dead_example :: ir_func where
  "dead_example =
     projr (bindE
       (ir_add_branch 1 (Op_const (Ir_const IR_PRIM_BOOL 0 0)) 2
          (snd (ir_code_create (Some ''A'') (ir_func_create ''f'' (Some ''entry'') []))))
       (ir_add_return0 2))"

text \<open>
  A counting loop on the 32-bit variable \<^verbatim>\<open>v\<close> (address 2): the entry block (1) is
  \<^verbatim>\<open>mov %v, 1; jump <L>\<close> (addresses 4, 5), the block \<^verbatim>\<open>L\<close> (3) is
  \<^verbatim>\<open>add %v, %v, 1; jump <L>\<close> (addresses 6, 7). \<^verbatim>\<open>create_combinator\<close> has put the
  combinator for \<^verbatim>\<open>v\<close> (address 8) in front of \<^verbatim>\<open>L\<close>, as \<^verbatim>\<open>insert_combinators\<close>
  does for a block of the dominance frontier.
\<close>

definition phi_example :: ir_func where
  "phi_example =
     projr (bindE (bindE (bindE (bindE
       (ir_add_expr1 1 2 IR_OP1_MOV (Op_const (Ir_const IR_PRIM_S32 1 0))
          (snd (ir_code_create (Some ''L'')
             (snd (ir_var_create IR_PRIM_S32 (Some ''v'')
                (ir_func_create ''f'' (Some ''entry'') []))))))
       (ir_add_jump 1 3))
       (ir_add_expr2 3 2 IR_OP2_ADD (Op_var 2) (Op_const (Ir_const IR_PRIM_S32 1 0))))
       (ir_add_jump 3 3))
       (create_combinator 3 2))"

section \<open>Evaluation rules\<close>

lemmas core_defs = deref_def upd_var_def upd_code_def upd_insn_def set_add_def set_remove_def
  set_addall_def set_contains_def dlist_append_def dlist_prepend_def dlist_remove_def
  ir_var_create_def ir_code_create_def ir_func_create_def unuse_def use_def new_insn_def
  append_assignment_def append_insn_def check_ssa_def after_jump_or_branch_def operand_prim_def
  link_codes_def Let_def

lemmas build_defs = ir_add_expr1_def ir_add_expr2_def ir_add_jump_def ir_add_branch_def
  ir_add_return0_def ir_add_return1_def ir_add_call_direct_def ir_add_call_ptr_def
  create_combinator_def

lemmas opt_defs = opt_unused_vars_def unused_var_step_def opt_const_prop_def const_prop_step_def
  const_prop_expr_def opt_dead_code_def dead_code_insn_def code_list_head_def clear_visited_def
  delete_unvisited_def opt_branches_def optimize_def ir_func_recalc_flow_def recalc_code_def
  recalc_insn_def clear_flow_def f_jump_target_def jump_or_branch_def ir_code_delete_def delete_jumps_to_def
  update_phi_def ir_insn_delete_def ir_var_delete_def merge_code_def

section \<open>Builders and the order of terminators\<close>

lemma after_terminator_new_insn:
  assumes "code_heap s from = Some cf" and "insns cf \<noteq> []"
    and "insn_heap s (last (insns cf)) = Some (Flow p fl)" and "jump_or_branch fl"
    and "insn_heap s (heap_top s) = None"
  shows "after_jump_or_branch from (snd (new_insn i s)) = Inr True"
proof -
  from assms(3,5) have ne: "last (insns cf) \<noteq> heap_top s" by auto
  from assms(2) obtain x xs where xs: "insns cf = x # xs" by (cases "insns cf") auto
  show ?thesis
    using assms(1,3,4) ne xs
    by (auto simp: after_jump_or_branch_def new_insn_def deref_def jump_or_branch_def
        split: ir_flow.splits)
qed

lemma add_jump_succeeds:
  assumes "code_heap s from = Some cf" and "code_heap s to = Some ct"
  shows "\<exists>s'. ir_add_jump from to s = Inr s'
           \<and> map_option succ (code_heap s' from) = Some (set_add (succ cf) to)
           \<and> map_option pred (code_heap s' to) = Some (set_add (pred ct) from)
           \<and> map_option insns (code_heap s' from) = Some (insns cf @ [heap_top s])
           \<and> insn_heap s' (heap_top s) = Some (Flow from (F_jump to))"
  using assms
  by (auto simp: ir_add_jump_def new_insn_def link_codes_def upd_code_def append_insn_def
      dlist_append_def)

lemma add_branch_succeeds:
  assumes "code_heap s from = Some cf" and "code_heap s to = Some ct"
    and "operand_prim cond s = Inr IR_PRIM_BOOL"
  shows "\<exists>s'. ir_add_branch from cond to s = Inr s'
           \<and> map_option succ (code_heap s' from) = Some (set_add (succ cf) to)
           \<and> map_option pred (code_heap s' to) = Some (set_add (pred ct) from)
           \<and> map_option insns (code_heap s' from) = Some (insns cf @ [heap_top s])
           \<and> insn_heap s' (heap_top s) = Some (Flow from (F_branch cond to))"
  using assms
  by (cases cond)
     (auto simp: ir_add_branch_def new_insn_def link_codes_def upd_code_def append_insn_def
        dlist_append_def operand_prim_def use_def upd_var_def deref_def
        split: option.splits)

lemma add_jump_never_aborts: "ir_add_jump from to s \<noteq> Inl Abort"
  by (auto simp: ir_add_jump_def new_insn_def link_codes_def upd_code_def append_insn_def
      split: option.splits)

lemma add_branch_aborts_only_on_type:
  "ir_add_branch from cond to s = Inl Abort \<longleftrightarrow>
     (\<exists>p. operand_prim cond s = Inr p \<and> p \<noteq> IR_PRIM_BOOL)"
  by (cases cond)
     (auto simp: ir_add_branch_def new_insn_def link_codes_def upd_code_def append_insn_def
        operand_prim_def use_def upd_var_def deref_def split: option.splits)

text \<open>
  C9: \<^verbatim>\<open>ir_add_jump\<close> and \<^verbatim>\<open>ir_add_branch\<close> make no test of the block's last
  instruction. When the last instruction of the block \<open>from\<close> is a jump or a branch,
  \<^verbatim>\<open>ir_add_jump\<close> succeeds, and \<^verbatim>\<open>ir_add_branch\<close> with a boolean condition succeeds;
  both add \<open>to\<close> to the successors of \<open>from\<close> and \<open>from\<close> to the predecessors of \<open>to\<close>
  and append the new instruction. \<^verbatim>\<open>ir_add_jump\<close> never aborts, and
  \<^verbatim>\<open>ir_add_branch\<close> aborts exactly when its condition is not a boolean. In the same
  position the builders of a combinator, a unary, binary or undefined expression, a direct
  or indirect call and a return with or without value all abort. The state is one in
  which the two blocks exist and the address of the next allocation is free.
\<close>

theorem jump_and_branch_skip_terminator_check:
  assumes "code_heap s from = Some cf" and "insns cf \<noteq> []"
    and "insn_heap s (last (insns cf)) = Some (Flow p fl)" and "jump_or_branch fl"
    and "insn_heap s (heap_top s) = None"
    and "code_heap s to = Some ct"
    and "operand_prim cond s = Inr IR_PRIM_BOOL"
  shows "(\<exists>s'. ir_add_jump from to s = Inr s'
           \<and> map_option succ (code_heap s' from) = Some (set_add (succ cf) to)
           \<and> map_option pred (code_heap s' to) = Some (set_add (pred ct) from)
           \<and> map_option insns (code_heap s' from) = Some (insns cf @ [heap_top s])
           \<and> insn_heap s' (heap_top s) = Some (Flow from (F_jump to)))
       \<and> (\<exists>s'. ir_add_branch from cond to s = Inr s'
           \<and> map_option succ (code_heap s' from) = Some (set_add (succ cf) to)
           \<and> map_option pred (code_heap s' to) = Some (set_add (pred ct) from)
           \<and> map_option insns (code_heap s' from) = Some (insns cf @ [heap_top s])
           \<and> insn_heap s' (heap_top s) = Some (Flow from (F_branch cond to)))
       \<and> (\<forall>t' s'. ir_add_jump from t' s' \<noteq> Inl Abort)
       \<and> (\<forall>c' t' s'. ir_add_branch from c' t' s' = Inl Abort \<longleftrightarrow>
             (\<exists>q. operand_prim c' s' = Inr q \<and> q \<noteq> IR_PRIM_BOOL))
       \<and> ir_add_combinator from d bs s = Inl Abort
       \<and> ir_add_expr1 from d op1 x s = Inl Abort
       \<and> ir_add_expr2 from d op2 x y s = Inl Abort
       \<and> ir_add_undefined from d s = Inl Abort
       \<and> ir_add_call_direct from label xs s = Inl Abort
       \<and> ir_add_call_ptr from x xs s = Inl Abort
       \<and> ir_add_return0 from s = Inl Abort
       \<and> ir_add_return1 from x s = Inl Abort"
proof -
  note t = after_terminator_new_insn [OF assms(1-5)]
  have j: "\<exists>s'. ir_add_jump from to s = Inr s'
           \<and> map_option succ (code_heap s' from) = Some (set_add (succ cf) to)
           \<and> map_option pred (code_heap s' to) = Some (set_add (pred ct) from)
           \<and> map_option insns (code_heap s' from) = Some (insns cf @ [heap_top s])
           \<and> insn_heap s' (heap_top s) = Some (Flow from (F_jump to))"
    by (rule add_jump_succeeds [OF assms(1) assms(6)])
  have b: "\<exists>s'. ir_add_branch from cond to s = Inr s'
           \<and> map_option succ (code_heap s' from) = Some (set_add (succ cf) to)
           \<and> map_option pred (code_heap s' to) = Some (set_add (pred ct) from)
           \<and> map_option insns (code_heap s' from) = Some (insns cf @ [heap_top s])
           \<and> insn_heap s' (heap_top s) = Some (Flow from (F_branch cond to))"
    by (rule add_branch_succeeds [OF assms(1) assms(6) assms(7)])
  have a1: "ir_add_combinator from d bs s = Inl Abort"
    using t [of "Expr from d (E_combinator bs)"]
    by (auto simp: ir_add_combinator_def split: prod.splits)
  have a2: "ir_add_expr1 from d op1 x s = Inl Abort"
    using t [of "Expr from d (E_unary op1 x)"]
    by (auto simp: ir_add_expr1_def split: prod.splits)
  have a3: "ir_add_expr2 from d op2 x y s = Inl Abort"
    using t [of "Expr from d (E_binary op2 x y)"]
    by (auto simp: ir_add_expr2_def split: prod.splits)
  have a4: "ir_add_undefined from d s = Inl Abort"
    using t [of "Expr from d E_undefined"]
    by (auto simp: ir_add_undefined_def split: prod.splits)
  have a5: "ir_add_call_direct from label xs s = Inl Abort"
    using t [of "Flow from (F_call_direct xs label)"]
    by (auto simp: ir_add_call_direct_def split: prod.splits)
  have a6: "ir_add_call_ptr from x xs s = Inl Abort"
    using t [of "Flow from (F_call_ptr xs x)"]
    by (auto simp: ir_add_call_ptr_def split: prod.splits)
  have a7: "ir_add_return0 from s = Inl Abort"
    using t [of "Flow from (F_return None)"]
    by (auto simp: ir_add_return0_def split: prod.splits)
  have a8: "ir_add_return1 from x s = Inl Abort"
    using t [of "Flow from (F_return (Some x))"]
    by (auto simp: ir_add_return1_def split: prod.splits)
  show ?thesis
    using j b a1 a2 a3 a4 a5 a6 a7 a8 add_jump_never_aborts add_branch_aborts_only_on_type
    by blast
qed


theorem jump_and_branch_skip_terminator_check_witness:
  "jump_example \<noteq> ir_func_create ''f'' (Some ''entry'') []
   \<and> (\<exists>s'. ir_add_jump 1 2 jump_example = Inr s'
         \<and> map_option succ (code_heap s' 1) = Some [2]
         \<and> map_option pred (code_heap s' 2) = Some [1]
         \<and> map_option insns (code_heap s' 1) = Some [3, 4]
         \<and> insn_heap s' 4 = Some (Flow 1 (F_jump 2)))
   \<and> (\<exists>s'. ir_add_branch 1 (Op_const (Ir_const IR_PRIM_BOOL 1 0)) 2 jump_example = Inr s'
         \<and> map_option insns (code_heap s' 1) = Some [3, 4]
         \<and> insn_heap s' 4 = Some (Flow 1 (F_branch (Op_const (Ir_const IR_PRIM_BOOL 1 0)) 2)))
   \<and> ir_add_combinator 1 9 [] jump_example = Inl Abort
   \<and> ir_add_expr1 1 9 IR_OP1_MOV (Op_const (Ir_const IR_PRIM_S32 5 0)) jump_example = Inl Abort
   \<and> ir_add_expr2 1 9 IR_OP2_ADD (Op_const (Ir_const IR_PRIM_S32 5 0))
        (Op_const (Ir_const IR_PRIM_S32 6 0)) jump_example = Inl Abort
   \<and> ir_add_undefined 1 9 jump_example = Inl Abort
   \<and> ir_add_call_direct 1 ''g'' [] jump_example = Inl Abort
   \<and> ir_add_call_ptr 1 (Op_const (Ir_const IR_PRIM_S32 5 0)) [] jump_example = Inl Abort
   \<and> ir_add_return0 1 jump_example = Inl Abort
   \<and> ir_add_return1 1 (Op_const (Ir_const IR_PRIM_S32 5 0)) jump_example = Inl Abort"
proof -
  let ?cf = "\<lparr>code_name = ''entry'', insns = [3], pred = [], succ = [2],
              visited = False, dfs_index = 0\<rparr>"
  let ?ct = "\<lparr>code_name = ''L'', insns = [], pred = [1], succ = [],
              visited = False, dfs_index = 0\<rparr>"
  have h1: "code_heap jump_example 1 = Some ?cf"
    by (simp add: jump_example_def ir_add_jump_def core_defs)
  have h2: "insns ?cf \<noteq> []" by simp
  have h3: "insn_heap jump_example (last (insns ?cf)) = Some (Flow 1 (F_jump 2))"
    by (simp add: jump_example_def ir_add_jump_def core_defs)
  have h4: "jump_or_branch (F_jump 2)" by (simp add: jump_or_branch_def)
  have h5: "insn_heap jump_example (heap_top jump_example) = None"
    by (simp add: jump_example_def ir_add_jump_def core_defs)
  have h6: "code_heap jump_example 2 = Some ?ct"
    by (simp add: jump_example_def ir_add_jump_def core_defs)
  have h7: "operand_prim (Op_const (Ir_const IR_PRIM_BOOL 1 0)) jump_example = Inr IR_PRIM_BOOL"
    by (simp add: operand_prim_def)
  have h8: "heap_top jump_example = 4"
    by (simp add: jump_example_def ir_add_jump_def core_defs)
  have h9: "jump_example \<noteq> ir_func_create ''f'' (Some ''entry'') []"
  proof
    assume "jump_example = ir_func_create ''f'' (Some ''entry'') []"
    then have "heap_top jump_example = heap_top (ir_func_create ''f'' (Some ''entry'') [])"
      by simp
    then show False by (simp add: h8 core_defs)
  qed
  note th = jump_and_branch_skip_terminator_check [OF h1 h2 h3 h4 h5 h6 h7,
      where d = 9 and bs = "[]" and ?op1.0 = IR_OP1_MOV
        and x = "Op_const (Ir_const IR_PRIM_S32 5 0)" and ?op2.0 = IR_OP2_ADD
        and y = "Op_const (Ir_const IR_PRIM_S32 6 0)" and label = "''g''" and xs = "[]"]
  show ?thesis using th h9 by (simp add: h8 set_add_def) blast
qed

section \<open>Replacing and deleting\<close>

text \<open>
  C4 (the code departs from the claim): \<^verbatim>\<open>ir_var_replace\<close> overwrites every
  non-constant argument of a call, whichever variable it names. In the function with the
  call \<^verbatim>\<open>call.direct <g>, %v, %w\<close> (address 4), replacing \<^verbatim>\<open>v\<close> with the constant 7
  turns the argument \<^verbatim>\<open>%w\<close> into the constant 7 as well.
\<close>

theorem replace_overwrites_other_argument:
  "(case ir_add_call_direct 1 ''g'' [Op_var 2, Op_var 3] two_vars of
      Inl e \<Rightarrow> False
    | Inr s \<Rightarrow>
        insn_heap s 4 = Some (Flow 1 (F_call_direct [Op_var 2, Op_var 3] ''g''))
        \<and> map_option used_at (var_heap s 2) = Some [4]
        \<and> map_option used_at (var_heap s 3) = Some [4])
   \<and> (case bindE (ir_add_call_direct 1 ''g'' [Op_var 2, Op_var 3] two_vars)
              (ir_var_replace 2 (Op_const (Ir_const IR_PRIM_S32 7 0))) of
      Inl e \<Rightarrow> False
    | Inr s \<Rightarrow>
        insn_heap s 4 = Some (Flow 1 (F_call_direct
          [Op_const (Ir_const IR_PRIM_S32 7 0), Op_const (Ir_const IR_PRIM_S32 7 0)] ''g'')))"
  by (simp add: two_vars_def core_defs ir_add_call_direct_def ir_var_replace_def
      replace_in_insn_def)

text \<open>
  C5 (the code departs from the claim): \<^verbatim>\<open>ir_insn_delete\<close> of a call through a
  pointer whose address operand is a variable leaves the instruction in that variable's
  use set. In the function with the call \<^verbatim>\<open>call.ptr %fp\<close> (address 3), deleting the
  call frees it while \<^verbatim>\<open>fp->used_at\<close> still holds its address; with a constant address
  the deletion follows a pointer that is none.
\<close>

theorem delete_call_ptr_keeps_use:
  "(case bindE (ir_add_call_ptr 1 (Op_var 2) [] one_var) (ir_insn_delete 3) of
      Inl e \<Rightarrow> False
    | Inr s \<Rightarrow> insn_heap s 3 = None \<and> map_option used_at (var_heap s 2) = Some [3])
   \<and> bindE (ir_add_call_ptr 1 (Op_const (Ir_const IR_PRIM_U64 4096 0)) [] one_var)
       (ir_insn_delete 3) = Inl BadPointer"
  by (simp add: one_var_def core_defs ir_add_call_ptr_def ir_insn_delete_def)

text \<open>
  C6 (the code departs from the claim): after \<^verbatim>\<open>ir_var_replace\<close> the use sets and
  the operands disagree. In the function with the call
  \<^verbatim>\<open>call.ptr u64'0x1000, %v, %w\<close> (address 4), which the builder leaves consistent,
  replacing \<^verbatim>\<open>v\<close> with the constant 7 leaves the call in \<^verbatim>\<open>w->used_at\<close> although no
  operand of the call names \<^verbatim>\<open>w\<close> any more.
\<close>

theorem replace_breaks_use_set_consistency:
  "(case ir_add_call_ptr 1 (Op_const (Ir_const IR_PRIM_U64 4096 0)) [Op_var 2, Op_var 3] two_vars of
      Inl e \<Rightarrow> False
    | Inr s \<Rightarrow>
        in_use_set s 2 4 \<and> references s 4 2 \<and> in_use_set s 3 4 \<and> references s 4 3)
   \<and> (case bindE (ir_add_call_ptr 1 (Op_const (Ir_const IR_PRIM_U64 4096 0))
                     [Op_var 2, Op_var 3] two_vars)
              (ir_var_replace 2 (Op_const (Ir_const IR_PRIM_S32 7 0))) of
      Inl e \<Rightarrow> False
    | Inr s \<Rightarrow> in_use_set s 3 4 \<and> \<not> references s 4 3)"
  by (simp add: two_vars_def core_defs ir_add_call_ptr_def ir_var_replace_def
      replace_in_insn_def in_use_set_def references_def)

section \<open>Unused variables and parameters\<close>

text \<open>
  C10 (the code departs from the claim): \<^verbatim>\<open>opt_unused_vars\<close> deletes a parameter
  that is never read, and \<^verbatim>\<open>ir_var_delete\<close> leaves \<^verbatim>\<open>func->args\<close> alone. For the
  function \<^verbatim>\<open>f(a)\<close> with an empty body the pass reports a change, \<^verbatim>\<open>vars_list\<close> is
  empty afterwards, the parameter slot still holds the address of the freed variable, and
  \<^verbatim>\<open>ir_func_serialize\<close> reads the name through it.
\<close>

theorem unused_parameter_is_deleted:
  "(case opt_unused_vars (Suc (Suc 0)) (ir_func_create ''f'' (Some ''entry'') [Some ''a'']) of
      Inl e \<Rightarrow> False
    | Inr (ch, s) \<Rightarrow>
        ch \<and> args s = [1] \<and> vars_list s = [] \<and> var_heap s 1 = None
        \<and> ir_func_serialize tb s = Inl BadPointer)
   \<and> args (ir_func_create ''f'' (Some ''entry'') [Some ''a'']) = [1]
   \<and> vars_list (ir_func_create ''f'' (Some ''entry'') [Some ''a'']) = [1]"
  by (simp add: core_defs opt_unused_vars_def unused_var_step_def ir_var_delete_def
      ir_func_serialize_def concatE_def var_name_of_def)


section \<open>Serialized constants\<close>

lemma lt16_cases:
  assumes "(d::nat) < 16"
  shows "d \<in> {0,1,2,3,4,5,6,7,8,9,10,11,12,13,14,15}"
  using assms by simp arith

lemma hex_digit_val_nth: "d < 16 \<Longrightarrow> hex_digit_val (''0123456789ABCDEF'' ! d) = d"
  using lt16_cases [of d] by (auto simp: hex_digit_val_def)

lemma is_hex_digit_nth: "d < 16 \<Longrightarrow> is_hex_digit (''0123456789ABCDEF'' ! d)"
  using lt16_cases [of d] by (auto simp: is_hex_digit_def)

lemma hex_val_append: "hex_val (xs @ [c]) = 16 * hex_val xs + hex_digit_val c"
  by (simp add: hex_val_def)

lemma hex_val_hex_digits: "hex_val (hex_digits n) = n"
proof (induction n rule: hex_digits.induct)
  case (1 n)
  show ?case
  proof (cases "n < 16")
    case True
    then show ?thesis
      by (subst hex_digits.simps) (simp add: hex_val_def hex_digit_val_nth)
  next
    case False
    then have "hex_val (hex_digits (n div 16)) = n div 16" using 1 by simp
    with False show ?thesis
      by (subst hex_digits.simps) (simp add: hex_val_append hex_digit_val_nth)
  qed
qed

lemma hex_digits_all_hex: "list_all is_hex_digit (hex_digits n)"
proof (induction n rule: hex_digits.induct)
  case (1 n)
  show ?case
  proof (cases "n < 16")
    case True
    then show ?thesis by (subst hex_digits.simps) (simp add: is_hex_digit_nth)
  next
    case False
    with 1 show ?thesis by (subst hex_digits.simps) (simp add: is_hex_digit_nth)
  qed
qed

lemma length_hex_digits_le: "n < 16 ^ k \<Longrightarrow> 0 < k \<Longrightarrow> length (hex_digits n) \<le> k"
proof (induction n arbitrary: k rule: hex_digits.induct)
  case (1 n)
  show ?case
  proof (cases "n < 16")
    case True
    with 1(3) show ?thesis by (subst hex_digits.simps) simp
  next
    case False
    from 1(3) obtain j where k: "k = Suc j" by (cases k) auto
    from False 1(2) k have j: "0 < j" by (cases j) auto
    from 1(2) k have "n div 16 < 16 ^ j"
      by (simp add: less_mult_imp_div_less mult.commute)
    with 1(1) [OF False _ j] have "length (hex_digits (n div 16)) \<le> j" by simp
    with False k show ?thesis by (subst hex_digits.simps) simp
  qed
qed

lemma hex_val_replicate_zero: "hex_val (replicate m (CHR ''0'') @ xs) = hex_val xs"
proof -
  have z: "hex_digit_val (CHR ''0'') = 0" by (simp add: hex_digit_val_def)
  have "foldl (\<lambda>acc c. 16 * acc + hex_digit_val c) 0 (replicate m (CHR ''0'')) = 0"
    by (induction m) (simp_all add: z)
  then show ?thesis by (simp add: hex_val_def)
qed

lemma length_fmt_0X: "length (fmt_0X w x) = max w (length (hex_digits (unat x)))"
  by (simp add: fmt_0X_def)

lemma hex_val_fmt_0X: "hex_val (fmt_0X w x) = unat x"
  by (simp add: fmt_0X_def hex_val_replicate_zero hex_val_hex_digits)

lemma fmt_0X_all_hex: "list_all is_hex_digit (fmt_0X w x)"
proof -
  have "list_all is_hex_digit (replicate m (CHR ''0''))" for m
    by (induction m) (simp_all add: is_hex_digit_def)
  then show ?thesis by (simp add: fmt_0X_def hex_digits_all_hex)
qed

lemma length_fmt_0X_exact:
  "unat x < 16 ^ w \<Longrightarrow> 0 < w \<Longrightarrow> length (fmt_0X w x) = w"
  using length_hex_digits_le [of "unat x" w] by (simp add: length_fmt_0X)

lemma ir_prim_sizes_pos: "0 < ir_prim_sizes p"
  by (cases p) simp_all

text \<open>
  C8, as stated, fails: \<^verbatim>\<open>printf\<close>'s width is a minimum. For the 8-bit constant
  whose low half is \<^verbatim>\<open>0x1FF\<close> the serializer prints three digits, not two.
\<close>

theorem serialize_constant_hex_counterexample:
  "ir_operand_serialize example_tables (Op_const (Ir_const IR_PRIM_S8 0x1FF 0)) two_vars
     = Inr (''s8'' @ [CHR 0x27] @ ''0x'' @ ''1FF'')
   \<and> length ''1FF'' \<noteq> 2 * ir_prim_sizes IR_PRIM_S8
   \<and> IR_PRIM_S8 \<noteq> IR_PRIM_BOOL
   \<and> ir_prim_sizes IR_PRIM_S8 \<le> 8"
  by (simp add: ir_operand_serialize_def example_tables_def fmt_0X_def hex_digits.simps)

text \<open>
  C8, amended: for every constant operand that is not a boolean and whose type has a
  byte size of at most 8, the serializer writes the name of the type, an apostrophe,
  \<^verbatim>\<open>0x\<close> and then the upper-case hexadecimal digits of the low 64-bit half, padded
  with zeros on the left to at least twice the byte size (followed, for the two
  floating-point types, by the comment). The digits represent the low half; there are
  exactly twice the byte size of them when the low half is below 2 to the power of eight
  times the byte size, and as many as the value has otherwise.
\<close>

theorem serialize_constant_hex:
  assumes "prim_type k \<noteq> IR_PRIM_BOOL" and "ir_prim_sizes (prim_type k) \<le> 8"
  shows "ir_operand_serialize tb (Op_const k) s =
           Inr (ir_prim_names tb (prim_type k) @ [CHR 0x27] @ ''0x''
                @ fmt_0X (2 * ir_prim_sizes (prim_type k)) (constl k)
                @ (if prim_type k = IR_PRIM_F32 then '' /* '' @ fmt_f tb k @ '' */''
                   else if prim_type k = IR_PRIM_F64 then '' /* '' @ fmt_lf tb k @ '' */''
                   else []))
       \<and> list_all is_hex_digit (fmt_0X (2 * ir_prim_sizes (prim_type k)) (constl k))
       \<and> hex_val (fmt_0X (2 * ir_prim_sizes (prim_type k)) (constl k)) = unat (constl k)
       \<and> length (fmt_0X (2 * ir_prim_sizes (prim_type k)) (constl k))
           = max (2 * ir_prim_sizes (prim_type k)) (length (hex_digits (unat (constl k))))
       \<and> (unat (constl k) < 2 ^ (8 * ir_prim_sizes (prim_type k)) \<longrightarrow>
            length (fmt_0X (2 * ir_prim_sizes (prim_type k)) (constl k))
              = 2 * ir_prim_sizes (prim_type k))"
proof -
  have ser: "ir_operand_serialize tb (Op_const k) s =
           Inr (ir_prim_names tb (prim_type k) @ [CHR 0x27] @ ''0x''
                @ fmt_0X (2 * ir_prim_sizes (prim_type k)) (constl k)
                @ (if prim_type k = IR_PRIM_F32 then '' /* '' @ fmt_f tb k @ '' */''
                   else if prim_type k = IR_PRIM_F64 then '' /* '' @ fmt_lf tb k @ '' */''
                   else []))"
    using assms by (simp add: ir_operand_serialize_def Let_def mult.commute)
  have pw: "(16::nat) ^ (2 * n) = 2 ^ (8 * n)" for n
  proof -
    have "(16::nat) ^ (2 * n) = (2 ^ 4) ^ (2 * n)" by simp
    also have "\<dots> = 2 ^ (4 * (2 * n))" by (rule power_mult [symmetric])
    finally show ?thesis by simp
  qed
  have exact: "unat (constl k) < 2 ^ (8 * ir_prim_sizes (prim_type k)) \<longrightarrow>
            length (fmt_0X (2 * ir_prim_sizes (prim_type k)) (constl k))
              = 2 * ir_prim_sizes (prim_type k)"
    using length_fmt_0X_exact [of "constl k" "2 * ir_prim_sizes (prim_type k)"]
      ir_prim_sizes_pos [of "prim_type k"]
    by (simp add: pw)
  show ?thesis
    using ser exact fmt_0X_all_hex hex_val_fmt_0X length_fmt_0X by blast
qed

theorem serialize_constant_hex_witness:
  "IR_PRIM_S32 \<noteq> IR_PRIM_BOOL \<and> ir_prim_sizes IR_PRIM_S32 \<le> 8
   \<and> ir_operand_serialize example_tables (Op_const (Ir_const IR_PRIM_S32 5 0)) two_vars
       = Inr (''s32'' @ [CHR 0x27] @ ''0x'' @ ''00000005'')
   \<and> hex_val ''00000005'' = 5
   \<and> length ''00000005'' = 2 * ir_prim_sizes IR_PRIM_S32"
proof -
  have h1: "prim_type (Ir_const IR_PRIM_S32 5 0) \<noteq> IR_PRIM_BOOL" by simp
  have h2: "ir_prim_sizes (prim_type (Ir_const IR_PRIM_S32 5 0)) \<le> 8" by simp
  have f: "fmt_0X 8 5 = ''00000005''"
    by code_simp
  show ?thesis
    using serialize_constant_hex [OF h1 h2, of example_tables two_vars]
    by (simp add: f example_tables_def)
qed


section \<open>Recalculating the control flow\<close>

lemma same_but_flow_refl: "same_but_flow s s"
  by (simp add: same_but_flow_def)

lemma same_but_flow_trans: "same_but_flow s s1 \<Longrightarrow> same_but_flow s1 s2 \<Longrightarrow> same_but_flow s s2"
  by (simp add: same_but_flow_def)

lemma same_but_flow_insn_heap: "same_but_flow s s' \<Longrightarrow> insn_heap s' = insn_heap s"
proof -
  assume "same_but_flow s s'"
  then have "s'\<lparr>code_heap := (\<lambda>c. None)\<rparr> = s\<lparr>code_heap := (\<lambda>c. None)\<rparr>"
    by (simp add: same_but_flow_def)
  then have "insn_heap (s'\<lparr>code_heap := (\<lambda>c. None)\<rparr>) = insn_heap (s\<lparr>code_heap := (\<lambda>c. None)\<rparr>)"
    by (rule arg_cong)
  then show ?thesis by simp
qed

lemma same_but_flow_code_list: "same_but_flow s s' \<Longrightarrow> code_list s' = code_list s"
proof -
  assume "same_but_flow s s'"
  then have "s'\<lparr>code_heap := (\<lambda>c. None)\<rparr> = s\<lparr>code_heap := (\<lambda>c. None)\<rparr>"
    by (simp add: same_but_flow_def)
  then have "code_list (s'\<lparr>code_heap := (\<lambda>c. None)\<rparr>) = code_list (s\<lparr>code_heap := (\<lambda>c. None)\<rparr>)"
    by (rule arg_cong)
  then show ?thesis by simp
qed

lemma same_but_flow_code:
  assumes "same_but_flow s s'" and "code_heap s c = Some x"
  shows "\<exists>y. code_heap s' c = Some y \<and> insns y = insns x \<and> no_flow y = no_flow x"
proof -
  from assms have e: "map_option no_flow (code_heap s' c) = Some (no_flow x)"
    by (simp add: same_but_flow_def)
  then obtain y where y: "code_heap s' c = Some y" "no_flow y = no_flow x" by auto
  from y(2) have "insns (no_flow y) = insns (no_flow x)" by simp
  then have "insns y = insns x" by (simp add: no_flow_def)
  with y show ?thesis by simp
qed

lemma same_but_flow_edge_of: "same_but_flow s s' \<Longrightarrow> edge_of s' i = edge_of s i"
  by (simp add: edge_of_def same_but_flow_insn_heap)

lemma upd_code_flow:
  assumes "code_heap s c = Some x" and "no_flow (g x) = no_flow x"
  shows "\<exists>s'. upd_code c g s = Inr s' \<and> same_but_flow s s'
           \<and> code_heap s' = (code_heap s)(c := Some (g x))"
  using assms by (simp add: upd_code_def same_but_flow_def)

lemma recalc_insn_step:
  assumes c: "code_heap s code = Some x" and i: "insn_heap s insn \<noteq> None"
    and nb: "\<not> is_branch_at s insn"
    and t: "\<forall>t. edge_of s insn = Some t \<longrightarrow> code_heap s t \<noteq> None"
  shows "\<exists>s'. recalc_insn code insn s = Inr s' \<and> same_but_flow s s'
           \<and> (\<forall>d. succs s' d = succs s d \<union> (if d = code then set_option (edge_of s insn) else {}))
           \<and> (\<forall>d. preds s' d = preds s d \<union> (if edge_of s insn = Some d then {code} else {}))"
proof (cases "edge_of s insn")
  case None
  with i nb have "recalc_insn code insn s = Inr s"
    by (auto simp: recalc_insn_def deref_def edge_of_def is_branch_at_def jump_or_branch_def
        split: option.splits ir_insn.splits ir_flow.splits)
  with None show ?thesis by (simp add: same_but_flow_refl)
next
  case (Some tg)
  with t obtain y where y: "code_heap s tg = Some y" by auto
  from Some obtain p where fl: "insn_heap s insn = Some (Flow p (F_jump tg))"
    by (auto simp: edge_of_def split: option.splits ir_insn.splits ir_flow.splits)
  let ?g1 = "\<lambda>c. c\<lparr>pred := set_add (pred c) code\<rparr>"
  let ?g2 = "\<lambda>c. c\<lparr>succ := set_add (succ c) tg\<rparr>"
  from upd_code_flow [OF y, of ?g1] obtain s1 where s1: "upd_code tg ?g1 s = Inr s1"
    "same_but_flow s s1" "code_heap s1 = (code_heap s)(tg := Some (?g1 y))"
    by (auto simp: no_flow_def)
  from s1(3) c obtain x1 where x1: "code_heap s1 code = Some x1"
    "x1 = (if code = tg then ?g1 y else x)" by auto
  from upd_code_flow [OF x1(1), of ?g2] obtain s2 where s2: "upd_code code ?g2 s1 = Inr s2"
    "same_but_flow s1 s2" "code_heap s2 = (code_heap s1)(code := Some (?g2 x1))"
    by (auto simp: no_flow_def)
  have r: "recalc_insn code insn s = Inr s2"
    using fl s1(1) s2(1)
    by (simp add: recalc_insn_def deref_def jump_or_branch_def f_jump_target_def)
  have sb: "same_but_flow s s2" using s1(2) s2(2) by (rule same_but_flow_trans)
  have su: "\<forall>d. succs s2 d = succs s d \<union> (if d = code then set_option (edge_of s insn) else {})"
    using s1(3) s2(3) x1 c y Some
    by (auto simp: succs_def set_add_def split: if_splits)
  have pr: "\<forall>d. preds s2 d = preds s d \<union> (if edge_of s insn = Some d then {code} else {})"
    using s1(3) s2(3) x1 c y Some
    by (auto simp: preds_def set_add_def split: if_splits)
  from r sb su pr show ?thesis by blast
qed

lemma same_but_flow_is_branch_at:
  "same_but_flow s s' \<Longrightarrow> is_branch_at s' i = is_branch_at s i"
  by (simp add: is_branch_at_def same_but_flow_insn_heap)

lemma same_but_flow_dom:
  "same_but_flow s s' \<Longrightarrow> (code_heap s' c = None) = (code_heap s c = None)"
proof -
  assume "same_but_flow s s'"
  then have "map_option no_flow (code_heap s' c) = map_option no_flow (code_heap s c)"
    by (simp add: same_but_flow_def)
  then show ?thesis by (cases "code_heap s' c"; cases "code_heap s c") auto
qed

lemma same_but_flow_targets_of: "same_but_flow s s' \<Longrightarrow> targets_of s' c = targets_of s c"
proof (cases "code_heap s c")
  case None
  assume sb: "same_but_flow s s'"
  with None same_but_flow_dom [OF sb, of c] show ?thesis by (simp add: targets_of_def)
next
  case (Some x)
  assume sb: "same_but_flow s s'"
  from same_but_flow_code [OF sb Some] obtain y where "code_heap s' c = Some y" "insns y = insns x"
    by auto
  moreover have "edge_of s' = edge_of s" using same_but_flow_edge_of [OF sb] by (rule ext)
  ultimately show ?thesis using Some by (simp add: targets_of_def)
qed

lemma set_targets_of:
  "code_heap s c = Some x \<Longrightarrow> set (targets_of s c) = {t. \<exists>i\<in>set (insns x). edge_of s i = Some t}"
proof -
  have "set (List.map_filter f xs) = {t. \<exists>i\<in>set xs. f i = Some t}" for f :: "nat \<Rightarrow> nat option" and xs
    by (induction xs) (auto split: option.splits)
  then show "code_heap s c = Some x \<Longrightarrow> ?thesis" by (simp add: targets_of_def)
qed

lemma recalc_insns_fold:
  assumes "code_heap s code \<noteq> None"
    and "\<forall>i\<in>set is. insn_heap s i \<noteq> None \<and> \<not> is_branch_at s i
           \<and> (\<forall>t. edge_of s i = Some t \<longrightarrow> code_heap s t \<noteq> None)"
  shows "\<exists>s'. foldE (recalc_insn code) is s = Inr s' \<and> same_but_flow s s'
           \<and> (\<forall>d. succs s' d = succs s d \<union> (if d = code then {t. \<exists>i\<in>set is. edge_of s i = Some t} else {}))
           \<and> (\<forall>d. preds s' d = preds s d \<union> (if \<exists>i\<in>set is. edge_of s i = Some d then {code} else {}))"
  using assms
proof (induction "is" arbitrary: s)
  case Nil
  then show ?case by (simp add: same_but_flow_refl)
next
  case (Cons i "is")
  from Cons.prems(1) obtain x where x: "code_heap s code = Some x" by auto
  from Cons.prems(2) have i: "insn_heap s i \<noteq> None" and nb: "\<not> is_branch_at s i"
    and t: "\<forall>t. edge_of s i = Some t \<longrightarrow> code_heap s t \<noteq> None" by auto
  from recalc_insn_step [OF x i nb t] obtain s1 where s1: "recalc_insn code i s = Inr s1"
    "same_but_flow s s1"
    "\<forall>d. succs s1 d = succs s d \<union> (if d = code then set_option (edge_of s i) else {})"
    "\<forall>d. preds s1 d = preds s d \<union> (if edge_of s i = Some d then {code} else {})"
    by blast
  have e: "edge_of s1 j = edge_of s j" for j using same_but_flow_edge_of [OF s1(2)] .
  have d: "(code_heap s1 c = None) = (code_heap s c = None)" for c
    using same_but_flow_dom [OF s1(2)] .
  have p1: "code_heap s1 code \<noteq> None" using Cons.prems(1) d by simp
  have p2: "\<forall>i\<in>set is. insn_heap s1 i \<noteq> None \<and> \<not> is_branch_at s1 i
              \<and> (\<forall>t. edge_of s1 i = Some t \<longrightarrow> code_heap s1 t \<noteq> None)"
    using Cons.prems(2)
    by (simp add: e d same_but_flow_insn_heap [OF s1(2)] same_but_flow_is_branch_at [OF s1(2)])
  from Cons.IH [OF p1 p2] obtain s2 where s2: "foldE (recalc_insn code) is s1 = Inr s2"
    "same_but_flow s1 s2"
    "\<forall>d. succs s2 d = succs s1 d \<union> (if d = code then {t. \<exists>i\<in>set is. edge_of s1 i = Some t} else {})"
    "\<forall>d. preds s2 d = preds s1 d \<union> (if \<exists>i\<in>set is. edge_of s1 i = Some d then {code} else {})"
    by blast
  have r: "foldE (recalc_insn code) (i # is) s = Inr s2" using s1(1) s2(1) by simp
  have sb: "same_but_flow s s2" using s1(2) s2(2) by (rule same_but_flow_trans)
  have su: "\<forall>d. succs s2 d = succs s d \<union> (if d = code then {t. \<exists>j\<in>set (i # is). edge_of s j = Some t} else {})"
    using s1(3) s2(3) by (auto simp: e)
  have pr: "\<forall>d. preds s2 d = preds s d \<union> (if \<exists>j\<in>set (i # is). edge_of s j = Some d then {code} else {})"
    using s1(4) s2(4) by (auto simp: e)
  from r sb su pr show ?case by blast
qed

lemma same_but_flow_code_ok:
  assumes "same_but_flow s s'" and "code_ok s c"
  shows "code_ok s' c"
proof -
  from assms(2) obtain x where x: "code_heap s c = Some x"
    "\<forall>i\<in>set (insns x). insn_heap s i \<noteq> None \<and> \<not> is_branch_at s i
        \<and> (\<forall>t. edge_of s i = Some t \<longrightarrow> code_heap s t \<noteq> None)"
    by (auto simp: code_ok_def)
  from same_but_flow_code [OF assms(1) x(1)] obtain y where y: "code_heap s' c = Some y"
    "insns y = insns x" by auto
  show ?thesis
    unfolding code_ok_def
    using x(2) y
    by (simp add: same_but_flow_insn_heap [OF assms(1)] same_but_flow_edge_of [OF assms(1)]
        same_but_flow_dom [OF assms(1)] same_but_flow_is_branch_at [OF assms(1)])
qed

lemma recalc_code_step:
  assumes "code_ok s c"
  shows "\<exists>s'. recalc_code c s = Inr s' \<and> same_but_flow s s'
           \<and> (\<forall>d. succs s' d = succs s d \<union> (if d = c then set (targets_of s c) else {}))
           \<and> (\<forall>d. preds s' d = preds s d \<union> (if d \<in> set (targets_of s c) then {c} else {}))"
proof -
  from assms obtain x where x: "code_heap s c = Some x"
    "\<forall>i\<in>set (insns x). insn_heap s i \<noteq> None \<and> \<not> is_branch_at s i
        \<and> (\<forall>t. edge_of s i = Some t \<longrightarrow> code_heap s t \<noteq> None)"
    by (auto simp: code_ok_def)
  from x(1) have ne: "code_heap s c \<noteq> None" by simp
  from recalc_insns_fold [OF ne x(2)] obtain s1 where
    s1: "foldE (recalc_insn c) (insns x) s = Inr s1" "same_but_flow s s1"
      "\<forall>d. succs s1 d = succs s d \<union> (if d = c then {t. \<exists>i\<in>set (insns x). edge_of s i = Some t} else {})"
      "\<forall>d. preds s1 d = preds s d \<union> (if \<exists>i\<in>set (insns x). edge_of s i = Some d then {c} else {})"
    by blast
  have r: "recalc_code c s = Inr s1"
    using x(1) s1(1) by (simp add: recalc_code_def deref_def)
  have tg: "set (targets_of s c) = {t. \<exists>i\<in>set (insns x). edge_of s i = Some t}"
    using x(1) by (rule set_targets_of)
  have su: "\<forall>d. succs s1 d = succs s d \<union> (if d = c then set (targets_of s c) else {})"
    unfolding tg by (rule s1(3))
  have "(d \<in> set (targets_of s c)) = (\<exists>i\<in>set (insns x). edge_of s i = Some d)" for d
    unfolding tg by simp
  then have pr: "\<forall>d. preds s1 d = preds s d \<union> (if d \<in> set (targets_of s c) then {c} else {})"
    using s1(4) by presburger
  from r s1(2) su pr show ?thesis by blast
qed

lemma recalc_codes_fold:
  assumes "\<forall>c\<in>set cs. code_ok s c"
  shows "\<exists>s'. foldE recalc_code cs s = Inr s' \<and> same_but_flow s s'
           \<and> (\<forall>d. succs s' d = succs s d \<union> (if d \<in> set cs then set (targets_of s d) else {}))
           \<and> (\<forall>d. preds s' d = preds s d \<union> set (filter (\<lambda>b. d \<in> set (targets_of s b)) cs))"
  using assms
proof (induction cs arbitrary: s)
  case Nil
  then show ?case by (simp add: same_but_flow_refl)
next
  case (Cons c cs)
  from Cons.prems have ok: "code_ok s c" by simp
  from recalc_code_step [OF ok] obtain s1 where s1: "recalc_code c s = Inr s1"
    "same_but_flow s s1"
    "\<forall>d. succs s1 d = succs s d \<union> (if d = c then set (targets_of s c) else {})"
    "\<forall>d. preds s1 d = preds s d \<union> (if d \<in> set (targets_of s c) then {c} else {})"
    by blast
  have tg: "targets_of s1 b = targets_of s b" for b
    using same_but_flow_targets_of [OF s1(2)] .
  have p: "\<forall>c\<in>set cs. code_ok s1 c"
    using Cons.prems same_but_flow_code_ok [OF s1(2)] by simp
  from Cons.IH [OF p] obtain s2 where s2: "foldE recalc_code cs s1 = Inr s2"
    "same_but_flow s1 s2"
    "\<forall>d. succs s2 d = succs s1 d \<union> (if d \<in> set cs then set (targets_of s1 d) else {})"
    "\<forall>d. preds s2 d = preds s1 d \<union> set (filter (\<lambda>b. d \<in> set (targets_of s1 b)) cs)"
    by blast
  have r: "foldE recalc_code (c # cs) s = Inr s2" using s1(1) s2(1) by simp
  have sb: "same_but_flow s s2" using s1(2) s2(2) by (rule same_but_flow_trans)
  have su: "\<forall>d. succs s2 d = succs s d \<union> (if d \<in> set (c # cs) then set (targets_of s d) else {})"
    using s1(3) s2(3) by (auto simp: tg)
  have pr: "\<forall>d. preds s2 d = preds s d \<union> set (filter (\<lambda>b. d \<in> set (targets_of s b)) (c # cs))"
    using s1(4) s2(4) by (auto simp: tg)
  from r sb su pr show ?case by blast
qed

lemma clear_flow_fold:
  assumes "\<forall>c\<in>set cs. code_heap s c \<noteq> None"
  shows "\<exists>s'. foldE clear_flow cs s = Inr s' \<and> same_but_flow s s'
           \<and> (\<forall>d. succs s' d = (if d \<in> set cs then {} else succs s d))
           \<and> (\<forall>d. preds s' d = (if d \<in> set cs then {} else preds s d))"
  using assms
proof (induction cs arbitrary: s)
  case Nil
  then show ?case by (simp add: same_but_flow_refl)
next
  case (Cons c cs)
  from Cons.prems obtain x where x: "code_heap s c = Some x" by auto
  let ?g = "\<lambda>c. c\<lparr>pred := [], succ := []\<rparr>"
  from upd_code_flow [OF x, of ?g] obtain s1 where s1: "clear_flow c s = Inr s1"
    "same_but_flow s s1" "code_heap s1 = (code_heap s)(c := Some (?g x))"
    by (auto simp: no_flow_def clear_flow_def)
  have p: "\<forall>c\<in>set cs. code_heap s1 c \<noteq> None"
    using Cons.prems same_but_flow_dom [OF s1(2)] by simp
  from Cons.IH [OF p] obtain s2 where s2: "foldE clear_flow cs s1 = Inr s2"
    "same_but_flow s1 s2"
    "\<forall>d. succs s2 d = (if d \<in> set cs then {} else succs s1 d)"
    "\<forall>d. preds s2 d = (if d \<in> set cs then {} else preds s1 d)"
    by blast
  have r: "foldE clear_flow (c # cs) s = Inr s2" using s1(1) s2(1) by simp
  have sb: "same_but_flow s s2" using s1(2) s2(2) by (rule same_but_flow_trans)
  have su1: "succs s1 d = (if d = c then {} else succs s d)" for d
    by (simp add: succs_def s1(3))
  have pr1: "preds s1 d = (if d = c then {} else preds s d)" for d
    by (simp add: preds_def s1(3))
  have su: "\<forall>d. succs s2 d = (if d \<in> set (c # cs) then {} else succs s d)"
    by (simp add: s2(3) su1)
  have pr: "\<forall>d. preds s2 d = (if d \<in> set (c # cs) then {} else preds s d)"
    by (simp add: s2(4) pr1)
  from r sb su pr show ?case by blast
qed

lemma flow_wf_code_ok:
  assumes "flow_wf s" and "same_but_flow s s1" and "c \<in> set (code_list s)"
  shows "code_ok s1 c"
proof -
  from assms(1,3) obtain x where x: "code_heap s c = Some x"
    "\<forall>i \<in> set (insns x). insn_heap s i \<noteq> None \<and> \<not> is_branch_at s i"
    "set (targets_of s c) \<subseteq> set (code_list s)"
    by (auto simp: flow_wf_def)
  have "code_heap s t \<noteq> None" if "i \<in> set (insns x)" "edge_of s i = Some t" for i t
  proof -
    from that x(1) have "t \<in> set (targets_of s c)" by (auto simp: set_targets_of)
    with x(3) have "t \<in> set (code_list s)" by auto
    with assms(1) show ?thesis by (auto simp: flow_wf_def)
  qed
  with x(1,2) have "code_ok s c" by (auto simp: code_ok_def)
  with assms(2) show ?thesis by (rule same_but_flow_code_ok)
qed

text \<open>
  What \<^verbatim>\<open>ir_func_recalc_flow\<close> does on a function without branches, whose blocks,
  instructions and jump targets exist: it succeeds and changes nothing but the
  predecessor and successor sets. Afterwards the successors of every block of
  \<^verbatim>\<open>code_list\<close> are exactly the targets of its jumps, and its predecessors are
  exactly the blocks of \<^verbatim>\<open>code_list\<close> with a jump to it: what the sets held before
  is gone, and nothing else is added.
\<close>

theorem recalc_flow_edges_of_jumps:
  assumes "flow_wf s"
  shows "\<exists>s'. ir_func_recalc_flow s = Inr s' \<and> same_but_flow s s'
           \<and> (\<forall>c\<in>set (code_list s).
                 succs s' c = set (targets_of s c)
               \<and> preds s' c = set (filter (\<lambda>b. c \<in> set (targets_of s b)) (code_list s)))"
proof -
  from assms have v: "\<forall>c\<in>set (code_list s). code_heap s c \<noteq> None"
    by (auto simp: flow_wf_def)
  from clear_flow_fold [OF v] obtain s1 where s1: "foldE clear_flow (code_list s) s = Inr s1"
    "same_but_flow s s1"
    "\<forall>d. succs s1 d = (if d \<in> set (code_list s) then {} else succs s d)"
    "\<forall>d. preds s1 d = (if d \<in> set (code_list s) then {} else preds s d)"
    by blast
  have cl: "code_list s1 = code_list s" using s1(2) by (rule same_but_flow_code_list)
  have tg: "targets_of s1 b = targets_of s b" for b
    using same_but_flow_targets_of [OF s1(2)] .
  have ok: "\<forall>c\<in>set (code_list s). code_ok s1 c"
    using flow_wf_code_ok [OF assms s1(2)] by simp
  from recalc_codes_fold [OF ok] obtain s2 where s2: "foldE recalc_code (code_list s) s1 = Inr s2"
    "same_but_flow s1 s2"
    "\<forall>d. succs s2 d = succs s1 d \<union> (if d \<in> set (code_list s) then set (targets_of s1 d) else {})"
    "\<forall>d. preds s2 d = preds s1 d \<union> set (filter (\<lambda>b. d \<in> set (targets_of s1 b)) (code_list s))"
    by blast
  have r: "ir_func_recalc_flow s = Inr s2"
    using s1(1) s2(1) by (simp add: ir_func_recalc_flow_def cl)
  have sb: "same_but_flow s s2" using s1(2) s2(2) by (rule same_but_flow_trans)
  have "\<forall>c\<in>set (code_list s).
                 succs s2 c = set (targets_of s c)
               \<and> preds s2 c = set (filter (\<lambda>b. c \<in> set (targets_of s b)) (code_list s))"
    using s1(3,4) s2(3,4) by (simp add: tg)
  with r sb show ?thesis by blast
qed

theorem recalc_flow_edges_of_jumps_witness:
  "flow_wf stale_example
   \<and> succs stale_example 1 = {2, 3} \<and> preds stale_example 2 = {1}
   \<and> (\<exists>s'. ir_func_recalc_flow stale_example = Inr s' \<and> same_but_flow stale_example s'
         \<and> succs s' 1 = {3} \<and> succs s' 2 = {} \<and> succs s' 3 = {}
         \<and> preds s' 1 = {} \<and> preds s' 2 = {} \<and> preds s' 3 = {1})"
proof -
  have ch: "code_heap stale_example =
      ((\<lambda>c. None)
        (1 := Some \<lparr>code_name = ''entry'', insns = [5], pred = [], succ = [2, 3],
                     visited = False, dfs_index = 0\<rparr>,
         2 := Some \<lparr>code_name = ''L'', insns = [], pred = [1], succ = [],
                     visited = False, dfs_index = 0\<rparr>,
         3 := Some \<lparr>code_name = ''M'', insns = [], pred = [1], succ = [],
                     visited = False, dfs_index = 0\<rparr>))"
    by (rule ext)
       (simp add: stale_example_def ir_add_branch_def ir_add_jump_def ir_insn_delete_def core_defs)
  have ih: "insn_heap stale_example 5 = Some (Flow 1 (F_jump 3))"
    by (simp add: stale_example_def ir_add_branch_def ir_add_jump_def ir_insn_delete_def core_defs)
  have cl: "code_list stale_example = [1, 2, 3]"
    by (simp add: stale_example_def ir_add_branch_def ir_add_jump_def ir_insn_delete_def core_defs)
  have t1: "targets_of stale_example 1 = [3]"
    by (simp add: targets_of_def edge_of_def ch ih)
  have t2: "targets_of stale_example 2 = []"
    by (simp add: targets_of_def ch)
  have t3: "targets_of stale_example 3 = []"
    by (simp add: targets_of_def ch)
  have wf: "flow_wf stale_example"
    using t1 t2 t3 by (simp add: flow_wf_def is_branch_at_def cl ch ih)
  have before: "succs stale_example 1 = {2, 3} \<and> preds stale_example 2 = {1}"
    by (simp add: succs_def preds_def ch)
  from recalc_flow_edges_of_jumps [OF wf] obtain s' where r: "ir_func_recalc_flow stale_example = Inr s'"
    and sb: "same_but_flow stale_example s'"
    and ed: "\<forall>c\<in>set (code_list stale_example).
                 succs s' c = set (targets_of stale_example c)
               \<and> preds s' c = set (filter (\<lambda>b. c \<in> set (targets_of stale_example b))
                                   (code_list stale_example))"
    by blast
  from ed t1 t2 t3 have after: "succs s' 1 = {3} \<and> succs s' 2 = {} \<and> succs s' 3 = {}
         \<and> preds s' 1 = {} \<and> preds s' 2 = {} \<and> preds s' 3 = {1}"
    by (simp add: cl)
  have "ir_func_recalc_flow stale_example = Inr s' \<and> same_but_flow stale_example s'
         \<and> succs s' 1 = {3} \<and> succs s' 2 = {} \<and> succs s' 3 = {}
         \<and> preds s' 1 = {} \<and> preds s' 2 = {} \<and> preds s' 3 = {1}"
    using r sb after by (intro conjI) (rule r, rule sb, simp_all)
  then have ex: "\<exists>s'. ir_func_recalc_flow stale_example = Inr s' \<and> same_but_flow stale_example s'
         \<and> succs s' 1 = {3} \<and> succs s' 2 = {} \<and> succs s' 3 = {}
         \<and> preds s' 1 = {} \<and> preds s' 2 = {} \<and> preds s' 3 = {1}"
    by (rule exI)
  from wf before ex show ?thesis by (intro conjI) (rule wf, simp_all only: simp_thms)
qed


section \<open>Termination of the optimizer\<close>

lemma branch_merge_loop_spins:
  "stuck s code \<Longrightarrow> branch_merge_loop n code changed s = Inl OutOfFuel"
proof (induction n)
  case 0
  show ?case by simp
next
  case (Suc n)
  then show ?case
    by (auto simp: stuck_def deref_def split: option.splits)
qed

lemma loop_example_shape: "loop_shape loop_example"
  by (simp add: loop_shape_def loop_example_def build_defs core_defs)

lemma opt_branches_spins:
  assumes "loop_shape s"
  shows "opt_branches n s = Inl OutOfFuel"
proof -
  from assms obtain c1 c2 where c: "code_list s = [1, 2]" "code_heap s 1 = Some c1"
    "succ c1 = [2]" "code_heap s 2 = Some c2" "pred c2 = [1, 2]"
    by (auto simp: loop_shape_def)
  let ?s1 = "s\<lparr>code_heap := (code_heap s)(1 := Some (c1\<lparr>visited := False\<rparr>),
                                            2 := Some (c2\<lparr>visited := False\<rparr>))\<rparr>"
  have cv: "clear_visited s = Inr ?s1"
    using c by (simp add: clear_visited_def upd_code_def)
  have hd: "code_list_head ?s1 = Inr 1"
    using c by (simp add: code_list_head_def)
  have dfs: "branch_opt_dfs n 1 ?s1 = Inl OutOfFuel"
  proof (cases n)
    case 0
    then show ?thesis by simp
  next
    case (Suc m)
    let ?s2 = "?s1\<lparr>code_heap := (code_heap ?s1)(1 := Some (c1\<lparr>visited := True\<rparr>))\<rparr>"
    have st: "stuck ?s2 1" using c by (simp add: stuck_def)
    have "branch_merge_loop m 1 False ?s2 = Inl OutOfFuel"
      using st by (rule branch_merge_loop_spins)
    then show ?thesis
      using Suc by (simp add: deref_def upd_code_def)
  qed
  show ?thesis using cv hd dfs by (simp add: opt_branches_def)
qed

lemma unused_vars_loop_example:
  "opt_unused_vars n loop_example = (if n = 0 then Inl OutOfFuel else Inr (False, loop_example))"
proof (cases n)
  case 0
  then show ?thesis by (simp add: opt_unused_vars_def)
next
  case (Suc m)
  have "vars_list loop_example = []"
    by (simp add: loop_example_def build_defs core_defs)
  with Suc show ?thesis by (simp add: opt_unused_vars_def)
qed

lemma const_prop_loop_example:
  "opt_const_prop ip n loop_example = (if n = 0 then Inl OutOfFuel else Inr (False, loop_example))"
proof (cases n)
  case 0
  then show ?thesis by (simp add: opt_const_prop_def)
next
  case (Suc m)
  have "vars_list loop_example = []"
    by (simp add: loop_example_def build_defs core_defs)
  with Suc show ?thesis by (simp add: opt_const_prop_def)
qed

lemma dead_code_loop_example:
  "opt_dead_code n loop_example = Inl OutOfFuel
   \<or> (\<exists>s. opt_dead_code n loop_example = Inr (False, s) \<and> loop_shape s)"
proof -
  consider "n = 0" | "n = Suc 0" | "n = Suc (Suc 0)" | "n = Suc (Suc (Suc 0))"
    | k where "n = Suc (Suc (Suc (Suc k)))"
    by (metis not0_implies_Suc)
  then show ?thesis
  proof cases
    case 1
    then show ?thesis by (simp add: opt_dead_code_def)
  next
    case 2
    then show ?thesis by (simp add: loop_example_def build_defs core_defs opt_defs)
  next
    case 3
    then show ?thesis by (simp add: loop_example_def build_defs core_defs opt_defs)
  next
    case 4
    then show ?thesis by (simp add: loop_example_def build_defs core_defs opt_defs)
  next
    case 5
    then show ?thesis
      by (simp add: loop_example_def build_defs core_defs opt_defs loop_shape_def)
  qed
qed

lemma dead_code_enough_fuel:
  "\<exists>s. opt_dead_code (Suc (Suc (Suc (Suc 0)))) loop_example = Inr (False, s) \<and> loop_shape s"
  by (simp add: loop_example_def build_defs core_defs opt_defs loop_shape_def)

lemma optimize_spins: "optimize ip fuel loop_example = Inl OutOfFuel"
proof (cases fuel)
  case 0
  then show ?thesis by (simp add: optimize_def)
next
  case (Suc n)
  show ?thesis
  proof (cases "n = 0")
    case True
    with Suc show ?thesis by (simp add: optimize_def unused_vars_loop_example)
  next
    case False
    from dead_code_loop_example [of n] show ?thesis
    proof
      assume "opt_dead_code n loop_example = Inl OutOfFuel"
      with Suc False show ?thesis
        by (simp add: optimize_def unused_vars_loop_example const_prop_loop_example)
    next
      assume "\<exists>s. opt_dead_code n loop_example = Inr (False, s) \<and> loop_shape s"
      then obtain s where s: "opt_dead_code n loop_example = Inr (False, s)" "loop_shape s"
        by blast
      from s(2) have "opt_branches n s = Inl OutOfFuel" by (rule opt_branches_spins)
      with Suc False s(1) show ?thesis
        by (simp add: optimize_def unused_vars_loop_example const_prop_loop_example)
    qed
  qed
qed

text \<open>
  C1 (the code departs from the claim): the loop \<^verbatim>\<open>while (code->succ.len == 1)\<close> of
  \<^verbatim>\<open>branch_opt_dfs\<close> merges only when the successor has one predecessor and has no
  other way out. On the function \<open>loop_example\<close>, whose entry block has the single
  successor \<^verbatim>\<open>L\<close> with two predecessors, \<^verbatim>\<open>opt_branches\<close> and \<^verbatim>\<open>optimize\<close> use
  up every amount of fuel, while the three passes before \<^verbatim>\<open>opt_branches\<close> return
  without a change.
\<close>

theorem optimize_never_returns_on_loop:
  "optimize ip fuel loop_example = Inl OutOfFuel
   \<and> opt_branches fuel loop_example = Inl OutOfFuel
   \<and> stuck loop_example 1
   \<and> opt_unused_vars (Suc 0) loop_example = Inr (False, loop_example)
   \<and> opt_const_prop ip (Suc 0) loop_example = Inr (False, loop_example)
   \<and> (\<exists>s. opt_dead_code (Suc (Suc (Suc (Suc 0)))) loop_example = Inr (False, s))"
proof -
  have a: "optimize ip fuel loop_example = Inl OutOfFuel" by (rule optimize_spins)
  have b: "opt_branches fuel loop_example = Inl OutOfFuel"
    using loop_example_shape by (rule opt_branches_spins)
  have c: "stuck loop_example 1"
    by (simp add: stuck_def loop_example_def build_defs core_defs)
  have d: "opt_unused_vars (Suc 0) loop_example = Inr (False, loop_example)"
    by (simp add: unused_vars_loop_example)
  have e: "opt_const_prop ip (Suc 0) loop_example = Inr (False, loop_example)"
    by (simp add: const_prop_loop_example)
  have f: "\<exists>s. opt_dead_code (Suc (Suc (Suc (Suc 0)))) loop_example = Inr (False, s)"
    using dead_code_enough_fuel by blast
  from a b c d e f show ?thesis by (intro conjI)
qed

section \<open>The result of the optimizer\<close>

text \<open>
  C2 (the code departs from the claim): \<^verbatim>\<open>dead_code_dfs\<close> deletes a branch whose
  condition is the constant false without setting \<^verbatim>\<open>changed\<close>, and
  \<^verbatim>\<open>opt_dead_code\<close> deletes the blocks that were not reached without entering that in
  its result. On the function \<open>dead_example\<close> both \<^verbatim>\<open>opt_dead_code\<close> and
  \<^verbatim>\<open>optimize\<close> return false although the branch at address 3 and the block
  \<^verbatim>\<open>A\<close> at address 2 are gone.
\<close>

theorem optimize_reports_no_change:
  "code_list dead_example = [1, 2]
   \<and> map_option insns (code_heap dead_example 1) = Some [3]
   \<and> insn_heap dead_example 3 = Some (Flow 1 (F_branch (Op_const (Ir_const IR_PRIM_BOOL 0 0)) 2))
   \<and> (case opt_dead_code (Suc (Suc (Suc (Suc 0)))) dead_example of
        Inl e \<Rightarrow> False
      | Inr (changed, s) \<Rightarrow>
          \<not> changed \<and> code_list s = [1]
          \<and> map_option insns (code_heap s 1) = Some []
          \<and> insn_heap s 3 = None \<and> code_heap s 2 = None)
   \<and> (case optimize ip (Suc (Suc (Suc (Suc (Suc 0))))) dead_example of
        Inl e \<Rightarrow> False
      | Inr (changed, s) \<Rightarrow>
          \<not> changed \<and> code_list s = [1]
          \<and> map_option insns (code_heap s 1) = Some []
          \<and> insn_heap s 3 = None \<and> code_heap s 2 = None)"
  by (simp add: dead_example_def build_defs core_defs opt_defs)

section \<open>Renaming and the entries of combinators\<close>

text \<open>
  C3 (the code departs from the claim): \<^verbatim>\<open>replace_phi_vars\<close> rewrites an entry only
  when its bind is not a constant, and \<^verbatim>\<open>create_combinator\<close> binds every entry to
  the constant 0. On the function \<open>phi_example\<close> the renaming walk for \<^verbatim>\<open>v\<close> renames
  the three assignments (to the variables at addresses 9, 10 and 11) and the read in the
  addition, and leaves both entries of the combinator bound to the constant 0: neither
  the entry for the entry block nor the one for the back edge names a variable.
\<close>

theorem rename_keeps_placeholder:
  "insn_heap phi_example 8 = Some (Expr 3 2 (E_combinator
         [Ir_combinator 1 (Op_const (Ir_const IR_PRIM_S32 0 0)),
          Ir_combinator 3 (Op_const (Ir_const IR_PRIM_S32 0 0))]))
   \<and> map_option insns (code_heap phi_example 3) = Some [8, 6, 7]
   \<and> (case rename_assignments (Suc (Suc (Suc 0))) 1 2 None ([2], phi_example) of
        Inl e \<Rightarrow> False
      | Inr (phi_from, s) \<Rightarrow>
          phi_from = [2, 10]
          \<and> insn_heap s 4 = Some (Expr 1 9 (E_unary IR_OP1_MOV
               (Op_const (Ir_const IR_PRIM_S32 1 0))))
          \<and> insn_heap s 8 = Some (Expr 3 10 (E_combinator
               [Ir_combinator 1 (Op_const (Ir_const IR_PRIM_S32 0 0)),
                Ir_combinator 3 (Op_const (Ir_const IR_PRIM_S32 0 0))]))
          \<and> insn_heap s 6 = Some (Expr 3 11 (E_binary IR_OP2_ADD (Op_var 10)
               (Op_const (Ir_const IR_PRIM_S32 1 0)))))"
  by (simp add: phi_example_def build_defs core_defs rename_insn_def replace_insn_var_def
      rename_at_def replace_phi_vars_def rebind_def)

end
